theory Spec2Isabelle
  imports Main
begin

section \<open>Logic model (logic.py)\<close>

text \<open>
  Python exceptions are values. \<open>KeyError\<close> is a failed dictionary subscript,
  \<open>IndexError\<close> a failed list subscript, \<open>AssertionError\<close> a failed \<open>assert\<close>,
  \<open>RuntimeError\<close> carries its message, \<open>TimeoutException\<close> is the timer's exception.
\<close>

datatype error =
    KeyError
  | IndexError
  | AssertionError
  | RuntimeError string
  | TimeoutException

text \<open>
  \<open>class Signature\<close>: the dictionaries are finite maps. Field names carry the prefix
  \<open>sig_\<close> where the class \<open>Model\<close> has a field of the same name.
\<close>

record Signature =
  sig_sorts :: "string set"
  sort_names :: "string list"
  sort_indices :: "string \<rightharpoonup> nat"
  sig_relations :: "string \<rightharpoonup> string list"
  sig_constants :: "string \<rightharpoonup> string"
  sig_functions :: "string \<rightharpoonup> (string list \<times> string)"

text \<open>\<open>class Term\<close> with its subclasses \<open>Var\<close> and \<open>Func\<close>.\<close>

datatype Term =
    Var string
  | Func string "Term list"

text \<open>
  \<open>class Formula\<close> with its seven subclasses. \<open>Equal.__init__\<close> stores exactly the
  two terms \<open>[a, b]\<close>.
\<close>

datatype Formula =
    And "Formula list"
  | Or "Formula list"
  | Not Formula
  | Equal Term Term
  | Relation string "Term list"
  | Forall string string Formula
  | Exists string string Formula

text \<open>
  \<open>class Model\<close>. Element ids are naturals (positions in \<open>names\<close>), a tuple of ids is
  a list. \<open>elems_of_sort\<close> is a \<open>defaultdict(list)\<close>: subscripting it never fails and a
  key that was never written reads as the empty list, so it is a total function.
  The fields \<open>constants\<close>, \<open>relations\<close> and \<open>functions\<close> carry the prefix \<open>m_\<close>.
\<close>

record Model =
  label :: string
  names :: "string list"
  elems :: "string \<rightharpoonup> nat"
  sorts :: "string list"
  elems_of_sort :: "string \<Rightarrow> nat list"
  elems_of_sort_index :: "nat list list"
  m_constants :: "string \<rightharpoonup> nat"
  m_relations :: "string \<rightharpoonup> nat list set"
  m_functions :: "string \<rightharpoonup> (nat list \<rightharpoonup> nat)"
  model_sig :: Signature

text \<open>
  \<open>class Environment\<close>: \<open>bound\<close> is a dictionary from variable names to sorts and
  \<open>stack\<close> a list that grows at its end. \<open>pop\<close> reads \<open>self.stack[-1]\<close>
  (\<open>IndexError\<close> on the empty stack), removes it and runs \<open>del self.bound[v]\<close>
  (\<open>KeyError\<close> when \<open>v\<close> is not a key). A method that raises returns only the
  exception: no caller reads the object afterwards.
\<close>

record Environment =
  env_sig :: Signature
  bound :: "string \<rightharpoonup> string"
  stack :: "string list"

definition Environment_init :: "Signature \<Rightarrow> Environment" where
  "Environment_init sg = \<lparr>env_sig = sg, bound = Map.empty, stack = []\<rparr>"

definition bind :: "Environment \<Rightarrow> string \<Rightarrow> string \<Rightarrow> Environment" where
  "bind e v srt = e\<lparr>bound := (bound e)(v \<mapsto> srt), stack := stack e @ [v]\<rparr>"

definition pop :: "Environment \<Rightarrow> error + Environment" where
  "pop e =
     (if stack e = [] then Inl IndexError
      else
        let v = last (stack e) in
        if v \<in> dom (bound e)
        then Inr (e\<lparr>stack := butlast (stack e), bound := (bound e)(v := None)\<rparr>)
        else Inl KeyError)"

definition lookup_var :: "Environment \<Rightarrow> string \<Rightarrow> string option" where
  "lookup_var e x =
     (if x \<in> dom (bound e) then bound e x
      else if x \<in> dom (sig_constants (env_sig e)) then sig_constants (env_sig e) x
      else None)"

text \<open>
  \<open>rename_free_vars_term\<close> and \<open>rename_free_vars\<close>. \<open>mapping.get(t.var, t.var)\<close> is
  the mapped name, or the name itself when it is not a key. Under a quantifier whose
  variable is a key, the code builds the dictionary of all items whose key differs
  from that variable.
\<close>

fun rename_free_vars_term :: "Term \<Rightarrow> (string \<rightharpoonup> string) \<Rightarrow> Term" where
  "rename_free_vars_term (Var x) mapping =
     Var (case mapping x of None \<Rightarrow> x | Some y \<Rightarrow> y)"
| "rename_free_vars_term (Func f args) mapping =
     Func f (map (\<lambda>a. rename_free_vars_term a mapping) args)"

fun rename_free_vars :: "Formula \<Rightarrow> (string \<rightharpoonup> string) \<Rightarrow> Formula" where
  "rename_free_vars (And c) mapping = And (map (\<lambda>x. rename_free_vars x mapping) c)"
| "rename_free_vars (Or c) mapping = Or (map (\<lambda>x. rename_free_vars x mapping) c)"
| "rename_free_vars (Not f) mapping = Not (rename_free_vars f mapping)"
| "rename_free_vars (Equal a b) mapping =
     Equal (rename_free_vars_term a mapping) (rename_free_vars_term b mapping)"
| "rename_free_vars (Relation r args) mapping =
     Relation r (map (\<lambda>a. rename_free_vars_term a mapping) args)"
| "rename_free_vars (Forall v s f) mapping =
     Forall v s (rename_free_vars f
       (if v \<notin> dom mapping then mapping
        else (\<lambda>a. if a \<noteq> v then mapping a else None)))"
| "rename_free_vars (Exists v s f) mapping =
     Exists v s (rename_free_vars f
       (if v \<notin> dom mapping then mapping
        else (\<lambda>a. if a \<noteq> v then mapping a else None)))"

text \<open>
  \<open>free_vars_term\<close> and \<open>free_vars\<close>: the generators yield the names in order of
  occurrence, with repetitions. Every \<open>Var\<close> is yielded, a constant of the signature
  like any other name, and a quantifier drops the occurrences of its own variable.
\<close>

fun free_vars_term :: "Term \<Rightarrow> string list" where
  "free_vars_term (Var x) = [x]"
| "free_vars_term (Func f args) = concat (map free_vars_term args)"

fun free_vars :: "Formula \<Rightarrow> string list" where
  "free_vars (And c) = concat (map free_vars c)"
| "free_vars (Or c) = concat (map free_vars c)"
| "free_vars (Not f) = free_vars f"
| "free_vars (Equal a b) = free_vars_term a @ free_vars_term b"
| "free_vars (Relation r args) = concat (map free_vars_term args)"
| "free_vars (Forall v s f) = filter (\<lambda>x. x \<noteq> v) (free_vars f)"
| "free_vars (Exists v s f) = filter (\<lambda>x. x \<noteq> v) (free_vars f)"

text \<open>
  \<open>Model.__init__\<close>: every relation of the signature starts with the empty set of
  tuples and every function with the empty table; \<open>elems_of_sort_index\<close> has one empty
  list per entry of \<open>sig.sort_names\<close>.
\<close>

definition Model_init :: "Signature \<Rightarrow> Model" where
  "Model_init sg =
     \<lparr>label = [], names = [], elems = Map.empty, sorts = [],
      elems_of_sort = (\<lambda>s. []),
      elems_of_sort_index = replicate (length (sort_names sg)) [],
      m_constants = Map.empty,
      m_relations = (\<lambda>r. if r \<in> dom (sig_relations sg) then Some {} else None),
      m_functions = (\<lambda>f. if f \<in> dom (sig_functions sg) then Some Map.empty else None),
      model_sig = sg\<rparr>"

text \<open>
  What a method of \<open>Model\<close> returns: a Python \<open>bool\<close>, or \<open>None\<close> for a method that
  ends without a \<open>return\<close> statement.
\<close>

datatype retval = PyBool bool | PyNone

text \<open>
  \<open>Model.add_elem\<close>. The new id is \<open>len(self.names)\<close>. The subscript
  \<open>self.sig.sort_indices[sort]\<close> raises \<open>KeyError\<close> for a sort without index, and
  \<open>self.elems_of_sort_index[...]\<close> raises \<open>IndexError\<close> past the end of the list.
\<close>

definition add_elem :: "Model \<Rightarrow> string \<Rightarrow> string \<Rightarrow> error + (retval \<times> Model)" where
  "add_elem m name srt =
     (if name \<in> dom (elems m) then Inr (PyBool False, m)
      else
        let elem_id = length (names m) in
        (case sort_indices (model_sig m) srt of
           None \<Rightarrow> Inl KeyError
         | Some i \<Rightarrow>
             if i < length (elems_of_sort_index m)
             then Inr (PyBool True,
               m\<lparr>elems := (elems m)(name \<mapsto> elem_id),
                 elems_of_sort := (elems_of_sort m)(srt := elems_of_sort m srt @ [elem_id]),
                 elems_of_sort_index :=
                   (elems_of_sort_index m)[i := elems_of_sort_index m ! i @ [elem_id]],
                 sorts := sorts m @ [srt],
                 names := names m @ [name]\<rparr>)
             else Inl IndexError))"

text \<open>\<open>Model.add_constant\<close>: \<open>self.elems[elem]\<close> raises \<open>KeyError\<close> for an unknown element.\<close>

definition add_constant :: "Model \<Rightarrow> string \<Rightarrow> string \<Rightarrow> error + (retval \<times> Model)" where
  "add_constant m name elem =
     (if name \<in> dom (m_constants m) then Inr (PyBool False, m)
      else
        (case elems m elem of
           None \<Rightarrow> Inl KeyError
         | Some e \<Rightarrow> Inr (PyBool True, m\<lparr>m_constants := (m_constants m)(name \<mapsto> e)\<rparr>)))"

text \<open>
  \<open>Model.add_relation\<close> and \<open>Model.add_function\<close> are declared \<open>-> None\<close> and have no
  \<open>return\<close> statement. \<open>those (map (elems m) args)\<close> is the tuple of ids, or nothing when
  some name is not an element (\<open>KeyError\<close>).
\<close>

definition add_relation :: "Model \<Rightarrow> string \<Rightarrow> string list \<Rightarrow> error + (retval \<times> Model)" where
  "add_relation m rel args =
     (case m_relations m rel of
        None \<Rightarrow> Inl KeyError
      | Some tuples \<Rightarrow>
          (case those (map (elems m) args) of
             None \<Rightarrow> Inl KeyError
           | Some t \<Rightarrow>
               Inr (PyNone, m\<lparr>m_relations := (m_relations m)(rel \<mapsto> insert t tuples)\<rparr>)))"

definition add_function ::
  "Model \<Rightarrow> string \<Rightarrow> string list \<Rightarrow> string \<Rightarrow> error + (retval \<times> Model)" where
  "add_function m func args result =
     (case elems m result of
        None \<Rightarrow> Inl KeyError
      | Some r \<Rightarrow>
          (case m_functions m func of
             None \<Rightarrow> Inl KeyError
           | Some tbl \<Rightarrow>
               (case those (map (elems m) args) of
                  None \<Rightarrow> Inl KeyError
                | Some t \<Rightarrow>
                    Inr (PyNone, m\<lparr>m_functions := (m_functions m)(func \<mapsto> tbl(t \<mapsto> r))\<rparr>))))"

text \<open>
  \<open>model_is_complete_wrt_sig\<close>: four loops that return \<open>False\<close> at the first failure and
  \<open>True\<close> after the last. \<open>itertools.product\<close> of the universes of the argument sorts is
  \<open>product_lists\<close> (one empty tuple for a function without arguments).
\<close>

definition model_is_complete_wrt_sig :: "Model \<Rightarrow> Signature \<Rightarrow> bool" where
  "model_is_complete_wrt_sig model sg \<longleftrightarrow>
     (\<forall>srt \<in> sig_sorts sg. length (elems_of_sort model srt) \<noteq> 0) \<and>
     (\<forall>c \<in> dom (sig_constants sg). c \<in> dom (m_constants model)) \<and>
     (\<forall>rel \<in> dom (sig_relations sg). rel \<in> dom (m_relations model)) \<and>
     (\<forall>func \<in> dom (sig_functions sg).
        func \<in> dom (m_functions model) \<and>
        (\<forall>t \<in> set (product_lists
                     (map (elems_of_sort model) (fst (the (sig_functions sg func))))).
           t \<in> dom (the (m_functions model func))))"

section \<open>Direct evaluator (check.py)\<close>

text \<open>
  \<open>resolve_term\<close>. A variable is looked up in the assumptions first and in the model's
  constants second; found in neither, the code raises
  \<open>RuntimeError(f"variable {term.var} not defined")\<close>. A function application
  subscripts \<open>model.functions[term.f]\<close> first, evaluates its arguments from left to
  right (\<open>resolve_terms\<close> is the list comprehension), and subscripts the function's
  table with the tuple; either subscript raises \<open>KeyError\<close> on a missing key.
\<close>

fun resolve_term :: "Term \<Rightarrow> Model \<Rightarrow> (string \<rightharpoonup> nat) \<Rightarrow> error + nat"
  and resolve_terms :: "Term list \<Rightarrow> Model \<Rightarrow> (string \<rightharpoonup> nat) \<Rightarrow> error + nat list"
where
  "resolve_term (Var x) m A =
     (case A x of
        Some e \<Rightarrow> Inr e
      | None \<Rightarrow>
          (case m_constants m x of
             Some e \<Rightarrow> Inr e
           | None \<Rightarrow> Inl (RuntimeError (''variable '' @ x @ '' not defined''))))"
| "resolve_term (Func f args) m A =
     (case m_functions m f of
        None \<Rightarrow> Inl KeyError
      | Some tbl \<Rightarrow>
          (case resolve_terms args m A of
             Inl e \<Rightarrow> Inl e
           | Inr es \<Rightarrow>
               (case tbl es of
                  None \<Rightarrow> Inl KeyError
                | Some r \<Rightarrow> Inr r)))"
| "resolve_terms [] m A = Inr []"
| "resolve_terms (t # ts) m A =
     (case resolve_term t m A of
        Inl e \<Rightarrow> Inl e
      | Inr x \<Rightarrow>
          (case resolve_terms ts m A of
             Inl e \<Rightarrow> Inl e
           | Inr xs \<Rightarrow> Inr (x # xs)))"

text \<open>
  \<open>check\<close>. The loops over conjuncts, disjuncts and the universe of a sort are the
  functions \<open>check_and\<close>, \<open>check_or\<close>, \<open>check_forall\<close> and \<open>check_exists\<close>; each returns at
  the first deciding element, so a later element is not evaluated and cannot raise.
  \<open>{**assumptions, formula.var: e}\<close> is the map update.
\<close>

fun check :: "Formula \<Rightarrow> Model \<Rightarrow> (string \<rightharpoonup> nat) \<Rightarrow> error + bool"
  and check_and :: "Formula list \<Rightarrow> Model \<Rightarrow> (string \<rightharpoonup> nat) \<Rightarrow> error + bool"
  and check_or :: "Formula list \<Rightarrow> Model \<Rightarrow> (string \<rightharpoonup> nat) \<Rightarrow> error + bool"
  and check_forall ::
    "Formula \<Rightarrow> Model \<Rightarrow> (string \<rightharpoonup> nat) \<Rightarrow> string \<Rightarrow> nat list \<Rightarrow> error + bool"
  and check_exists ::
    "Formula \<Rightarrow> Model \<Rightarrow> (string \<rightharpoonup> nat) \<Rightarrow> string \<Rightarrow> nat list \<Rightarrow> error + bool"
where
  "check (And c) m A = check_and c m A"
| "check (Or c) m A = check_or c m A"
| "check (Not f) m A =
     (case check f m A of Inl e \<Rightarrow> Inl e | Inr b \<Rightarrow> Inr (\<not> b))"
| "check (Equal a b) m A =
     (case resolve_term a m A of
        Inl e \<Rightarrow> Inl e
      | Inr x \<Rightarrow>
          (case resolve_term b m A of
             Inl e \<Rightarrow> Inl e
           | Inr y \<Rightarrow> Inr (x = y)))"
| "check (Relation r args) m A =
     (case resolve_terms args m A of
        Inl e \<Rightarrow> Inl e
      | Inr es \<Rightarrow>
          (case m_relations m r of
             None \<Rightarrow> Inl KeyError
           | Some tuples \<Rightarrow> Inr (es \<in> tuples)))"
| "check (Forall v s f) m A = check_forall f m A v (elems_of_sort m s)"
| "check (Exists v s f) m A = check_exists f m A v (elems_of_sort m s)"
| "check_and [] m A = Inr True"
| "check_and (f # fs) m A =
     (case check f m A of
        Inl e \<Rightarrow> Inl e
      | Inr b \<Rightarrow> if \<not> b then Inr False else check_and fs m A)"
| "check_or [] m A = Inr False"
| "check_or (f # fs) m A =
     (case check f m A of
        Inl e \<Rightarrow> Inl e
      | Inr b \<Rightarrow> if b then Inr True else check_or fs m A)"
| "check_forall f m A v [] = Inr True"
| "check_forall f m A v (e # es) =
     (case check f m (A(v \<mapsto> e)) of
        Inl x \<Rightarrow> Inl x
      | Inr b \<Rightarrow> if \<not> b then Inr False else check_forall f m A v es)"
| "check_exists f m A v [] = Inr False"
| "check_exists f m A v (e # es) =
     (case check f m (A(v \<mapsto> e)) of
        Inl x \<Rightarrow> Inl x
      | Inr b \<Rightarrow> if b then Inr True else check_exists f m A v es)"


section \<open>Solver bridge: the external process (cvc4.py)\<close>

text \<open>The three values of \<open>z3.CheckSatResult\<close> the code compares with.\<close>

datatype CheckSatResult = sat | unsat | unknown

text \<open>
  What \<open>subprocess.run(..., timeout=to)\<close> does once the process has started: it raises
  \<open>subprocess.TimeoutExpired\<close>, or it returns the exit code and the standard output,
  kept here as the list \<open>res.stdout.splitlines()\<close>.
\<close>

datatype run_outcome =
    TimeoutExpired
  | CompletedProcess int "string list"

text \<open>
  \<open>solve_with_cvc4\<close>. Its collaborators are parameters: \<open>preprocess\<close> is
  \<open>cvc4_preprocess(s.to_smt2())\<close>, whose assertions can fail before the \<open>try\<close> block;
  \<open>run\<close> is the subprocess on the rewritten text; \<open>parse_model\<close> is
  \<open>_parse_model(sig, lines[1:])\<close>, which rests on the S-expression parser. Only
  \<open>TimeoutExpired\<close> is caught. \<open>lines[0]\<close> raises \<open>IndexError\<close> on empty output, and a
  first line other than the three tokens reaches \<open>assert False\<close>.
\<close>

definition solve_with_cvc4 ::
  "('s \<Rightarrow> error + 't) \<Rightarrow> ('t \<Rightarrow> run_outcome) \<Rightarrow> (string list \<Rightarrow> error + Model) \<Rightarrow> 's \<Rightarrow>
     error + (CheckSatResult \<times> Model option)" where
  "solve_with_cvc4 preprocess run parse_model s =
     (case preprocess s of
        Inl e \<Rightarrow> Inl e
      | Inr smtlib \<Rightarrow>
          (case run smtlib of
             TimeoutExpired \<Rightarrow> Inr (unknown, None)
           | CompletedProcess returncode lines \<Rightarrow>
               if returncode = 0 then
                 (case lines of
                    [] \<Rightarrow> Inl IndexError
                  | l # rest \<Rightarrow>
                      if l = ''unsat'' then Inr (unsat, None)
                      else if l = ''unknown'' then Inr (unknown, None)
                      else if l = ''sat'' then
                        (case parse_model rest of
                           Inl e \<Rightarrow> Inl e
                         | Inr m \<Rightarrow> Inr (sat, Some m))
                      else Inl AssertionError)
               else Inr (unknown, None)))"

section \<open>Equivalence queries (learn.py)\<close>

text \<open>
  \<open>find_model_or_equivalence_cvc4\<close>. \<open>assert_query a b\<close> is the solver after
  \<open>s.push(); s.add(toZ3(a, env)); s.add(z3.Not(toZ3(b, env)))\<close>, or the exception the
  translation raises. The first query asserts \<open>current\<close> and the negation of
  \<open>formula\<close>; its model is relabelled \<open>'-'\<close>. The second query asserts \<open>formula\<close> and
  the negation of \<open>current\<close>; its model is relabelled \<open>'+'\<close>.
\<close>

definition find_model_or_equivalence_cvc4 ::
  "(Formula \<Rightarrow> Formula \<Rightarrow> error + 's) \<Rightarrow> ('s \<Rightarrow> error + 't) \<Rightarrow> ('t \<Rightarrow> run_outcome) \<Rightarrow>
     (string list \<Rightarrow> error + Model) \<Rightarrow> Formula \<Rightarrow> Formula \<Rightarrow> error + Model option" where
  "find_model_or_equivalence_cvc4 assert_query preprocess run parse_model current formula =
     (case assert_query current formula of
        Inl e \<Rightarrow> Inl e
      | Inr s1 \<Rightarrow>
     (case solve_with_cvc4 preprocess run parse_model s1 of
        Inl e \<Rightarrow> Inl e
      | Inr (r1, m) \<Rightarrow>
     (case m of
        Some m1 \<Rightarrow> Inr (Some (m1\<lparr>label := ''-''\<rparr>))
      | None \<Rightarrow>
     (case assert_query formula current of
        Inl e \<Rightarrow> Inl e
      | Inr s2 \<Rightarrow>
     (case solve_with_cvc4 preprocess run parse_model s2 of
        Inl e \<Rightarrow> Inl e
      | Inr (r2, m') \<Rightarrow>
     (case m' of
        Some m2 \<Rightarrow> Inr (Some (m2\<lparr>label := ''+''\<rparr>))
      | None \<Rightarrow>
          if r1 = unsat \<and> r2 = unsat then Inr None
          else Inl (RuntimeError ''CVC4 did not produce equivalence or model'')))))))"

text \<open>
  \<open>fm\<close>, the query of the embedded solver. \<open>solver_check bnd a b\<close> is
  \<open>timer.solver_check(solver)\<close> after \<open>a\<close> and the negation of \<open>b\<close> were asserted (or the
  exception raised by the translation or the timer), and \<open>solver_model bnd a b\<close> is
  \<open>solver.model()\<close>, read only when the answer is \<open>sat\<close>. \<open>bnd\<close> is the cardinality
  bound that \<open>bound_sort_counts\<close> pushed for every sort, if any.
\<close>

definition fm ::
  "(nat option \<Rightarrow> Formula \<Rightarrow> Formula \<Rightarrow> error + CheckSatResult) \<Rightarrow>
   (nat option \<Rightarrow> Formula \<Rightarrow> Formula \<Rightarrow> 'zm) \<Rightarrow>
   nat option \<Rightarrow> Formula \<Rightarrow> Formula \<Rightarrow> error + (CheckSatResult \<times> 'zm option)" where
  "fm solver_check solver_model bnd a b =
     (case solver_check bnd a b of
        Inl e \<Rightarrow> Inl e
      | Inr r \<Rightarrow> Inr (r, if r = sat then Some (solver_model bnd a b) else None))"

text \<open>
  \<open>extract_model(m, sig, label)\<close>: \<open>build\<close> reads the universes and interpretations
  out of the solver's model (it can fail, for instance on an empty universe); the
  label is the one passed in.
\<close>

definition extract_model :: "('zm \<Rightarrow> error + Model) \<Rightarrow> 'zm \<Rightarrow> string \<Rightarrow> error + Model" where
  "extract_model build zm lbl =
     (case build zm of Inl e \<Rightarrow> Inl e | Inr M \<Rightarrow> Inr (M\<lparr>label := lbl\<rparr>))"

text \<open>
  The loop \<open>for k in range(1, 100000)\<close> of \<open>find_model_or_equivalence\<close>, from \<open>k\<close> on:
  it returns the extracted model of the first bounded query that has one, and reaches
  \<open>assert False\<close> when no bound below 100000 has a model.
\<close>

function minimize ::
  "(nat option \<Rightarrow> Formula \<Rightarrow> Formula \<Rightarrow> error + CheckSatResult) \<Rightarrow>
   (nat option \<Rightarrow> Formula \<Rightarrow> Formula \<Rightarrow> 'zm) \<Rightarrow> ('zm \<Rightarrow> error + Model) \<Rightarrow>
   Formula \<Rightarrow> Formula \<Rightarrow> string \<Rightarrow> nat \<Rightarrow> error + Model option" where
  "minimize solver_check solver_model build a b lbl k =
     (if k < 100000 then
        (case fm solver_check solver_model (Some k) a b of
           Inl e \<Rightarrow> Inl e
         | Inr (r, m) \<Rightarrow>
             (case m of
                Some zm \<Rightarrow>
                  (case extract_model build zm lbl of
                     Inl e \<Rightarrow> Inl e
                   | Inr M \<Rightarrow> Inr (Some M))
              | None \<Rightarrow> minimize solver_check solver_model build a b lbl (Suc k)))
      else Inl AssertionError)"
  by pat_completeness auto
termination
  by (relation "measure (\<lambda>(sc, sm, bd, a, b, lbl, k). 100000 - k)") auto

declare minimize.simps [simp del]

definition find_model_or_equivalence ::
  "(nat option \<Rightarrow> Formula \<Rightarrow> Formula \<Rightarrow> error + CheckSatResult) \<Rightarrow>
   (nat option \<Rightarrow> Formula \<Rightarrow> Formula \<Rightarrow> 'zm) \<Rightarrow> ('zm \<Rightarrow> error + Model) \<Rightarrow>
   Formula \<Rightarrow> Formula \<Rightarrow> error + Model option" where
  "find_model_or_equivalence solver_check solver_model build current formula =
     (case fm solver_check solver_model None current formula of
        Inl e \<Rightarrow> Inl e
      | Inr (r1, m) \<Rightarrow>
          if m \<noteq> None then minimize solver_check solver_model build current formula ''-'' 1
          else
            (case fm solver_check solver_model None formula current of
               Inl e \<Rightarrow> Inl e
             | Inr (r2, m') \<Rightarrow>
                 if m' \<noteq> None
                 then minimize solver_check solver_model build formula current ''+'' 1
                 else if r1 = unsat \<and> r2 = unsat then Inr None
                 else Inl (RuntimeError ''Z3 did not produce equivalence or model'')))"

section \<open>Refinement loop (learn.py)\<close>

text \<open>
  \<open>class LearningResult\<close> without its three timers: the class \<open>Timer\<close> is not part of
  the modelled sources, and what the timers do shows as the parameters below.
\<close>

record LearningResult =
  success :: bool
  current :: Formula
  models :: "Model list"
  reason :: string

text \<open>
  The collaborators of a run. \<open>oracle_cvc4 n\<close> and \<open>oracle_z3 n\<close> are the two
  equivalence queries in the iteration that starts with \<open>n\<close> collected models;
  \<open>timed_out n\<close> tells whether \<open>counterexample_timer.check_time()\<close> raises
  \<open>TimeoutException\<close> there. The separator is an object with a state of type \<open>'sep\<close>:
  \<open>add_model\<close> returns the identifier of the registered model, \<open>separate_call\<close> is
  \<open>separator.separate(pos, neg, imp, ...)\<close> under the limits of the run, which returns a
  formula or \<open>None\<close>, or raises. \<open>assert_axioms\<close> is the exception, if any, raised
  while the axioms are translated and asserted before the loop. Entering and leaving
  a \<open>with timer:\<close> block only accounts time.
\<close>

record 'sep collaborators =
  no_cvc4 :: bool
  oracle_cvc4 :: "nat \<Rightarrow> Formula \<Rightarrow> Formula \<Rightarrow> error + Model option"
  oracle_z3 :: "nat \<Rightarrow> Formula \<Rightarrow> Formula \<Rightarrow> error + Model option"
  timed_out :: "nat \<Rightarrow> bool"
  add_model :: "'sep \<Rightarrow> Model \<Rightarrow> nat \<times> 'sep"
  separate_call ::
    "'sep \<Rightarrow> nat list \<Rightarrow> nat list \<Rightarrow> (nat \<times> nat) list \<Rightarrow> error + (Formula option \<times> 'sep)"
  assert_axioms :: "error option"

record 'sep learn_state =
  result :: LearningResult
  separator :: 'sep
  p_constraints :: "nat list"
  n_constraints :: "nat list"

datatype ('a, 'b) step = Continue 'a | Return 'b

text \<open>
  The two \<open>except\<close> clauses of \<open>learn\<close>: a \<open>TimeoutException\<close> and a \<open>RuntimeError\<close> end
  the run with a reason; any other exception leaves the function.
\<close>

definition handle_exception :: "LearningResult \<Rightarrow> error \<Rightarrow> error + LearningResult" where
  "handle_exception res e =
     (case e of
        TimeoutException \<Rightarrow> Inr (res\<lparr>reason := ''timeout''\<rparr>)
      | RuntimeError msg \<Rightarrow> Inr (res\<lparr>reason := msg\<rparr>)
      | _ \<Rightarrow> Inl e)"

definition couldnt_separate :: string where
  "couldnt_separate = ''couldn't separate models under given restrictions''"

text \<open>
  One iteration of \<open>while True\<close> in \<open>learn\<close>. \<open>r.label.startswith("+")\<close> is
  \<open>take 1 (label m) = ''+''\<close>. The model is appended to \<open>result.models\<close> before the
  separator searches.
\<close>

definition learn_step ::
  "'sep collaborators \<Rightarrow> Formula \<Rightarrow> 'sep learn_state \<Rightarrow>
     ('sep learn_state, error + LearningResult) step" where
  "learn_step E formula st =
     (let res = result st; n = length (models res) in
      case (if \<not> no_cvc4 E then oracle_cvc4 E n (current res) formula
            else oracle_z3 E n (current res) formula) of
        Inl e \<Rightarrow> Return (handle_exception res e)
      | Inr r \<Rightarrow>
          if timed_out E n then Return (handle_exception res TimeoutException)
          else
            (case r of
               None \<Rightarrow> Return (Inr (res\<lparr>success := True\<rparr>))
             | Some m \<Rightarrow>
                 (let (ident, sep1) = add_model E (separator st) m;
                      res1 = res\<lparr>models := models res @ [m]\<rparr>;
                      p = (if take 1 (label m) = ''+'' then p_constraints st @ [ident]
                           else p_constraints st);
                      ng = (if take 1 (label m) = ''+'' then n_constraints st
                            else n_constraints st @ [ident])
                  in case separate_call E sep1 p ng [] of
                       Inl e \<Rightarrow> Return (handle_exception res1 e)
                     | Inr (c, sep2) \<Rightarrow>
                         (case c of
                            None \<Rightarrow> Return (Inr (res1\<lparr>reason := couldnt_separate\<rparr>))
                          | Some c' \<Rightarrow>
                              Continue
                                \<lparr>result = res1\<lparr>current := c'\<rparr>, separator = sep2,
                                 p_constraints = p, n_constraints = ng\<rparr>))))"

text \<open>The loop itself may run forever: not returning is the value \<open>None\<close>.\<close>

partial_function (option) learn_loop ::
  "'sep collaborators \<Rightarrow> Formula \<Rightarrow> 'sep learn_state \<Rightarrow> (error + LearningResult) option" where
  "learn_loop E formula st =
     (case learn_step E formula st of
        Return x \<Rightarrow> Some x
      | Continue st' \<Rightarrow> learn_loop E formula st')"

definition initial_result :: LearningResult where
  "initial_result = \<lparr>success = False, current = Or [], models = [], reason = []\<rparr>"

definition learn ::
  "'sep collaborators \<Rightarrow> 'sep \<Rightarrow> Formula \<Rightarrow> (error + LearningResult) option" where
  "learn E sep0 formula =
     (case assert_axioms E of
        Some e \<Rightarrow> Some (Inl e)
      | None \<Rightarrow>
          learn_loop E formula
            \<lparr>result = initial_result, separator = sep0,
             p_constraints = [], n_constraints = []\<rparr>)"

text \<open>The state after \<open>k\<close> iterations that all went on to the next one.\<close>

fun iterations ::
  "'sep collaborators \<Rightarrow> Formula \<Rightarrow> nat \<Rightarrow> 'sep learn_state \<Rightarrow> 'sep learn_state option" where
  "iterations E formula 0 st = Some st"
| "iterations E formula (Suc k) st =
     (case learn_step E formula st of
        Return x \<Rightarrow> None
      | Continue st' \<Rightarrow> iterations E formula k st')"

text \<open>
  Batch mode, \<open>separate(f, timeout, args)\<close>. Of the \<open>FOLFile\<close> the function reads the
  models and the three constraint lists (labels); the signature and the axioms only
  configure the separator. \<open>mapping\<close> is a \<open>defaultdict(list)\<close> from labels to
  identifiers. After a successful search the code prints \<open>check(c, m)\<close> for every model,
  which can raise. Only \<open>TimeoutException\<close> is caught.
\<close>

record FOLFile =
  fol_models :: "Model list"
  constraint_pos :: "string list"
  constraint_neg :: "string list"
  constraint_imp :: "(string \<times> string) list"

fun add_models ::
  "('sep \<Rightarrow> Model \<Rightarrow> nat \<times> 'sep) \<Rightarrow> 'sep \<Rightarrow> (string \<Rightarrow> nat list) \<Rightarrow> Model list \<Rightarrow>
     (string \<Rightarrow> nat list) \<times> 'sep" where
  "add_models am sp mapping [] = (mapping, sp)"
| "add_models am sp mapping (m # ms) =
     (let (i, sp') = am sp m
      in add_models am sp' (mapping(label m := mapping (label m) @ [i])) ms)"

fun print_checks :: "Formula \<Rightarrow> Model list \<Rightarrow> error option" where
  "print_checks c [] = None"
| "print_checks c (m # ms) =
     (case check c m Map.empty of
        Inl e \<Rightarrow> Some e
      | Inr b \<Rightarrow> print_checks c ms)"

definition separate ::
  "'sep collaborators \<Rightarrow> 'sep \<Rightarrow> FOLFile \<Rightarrow> error + LearningResult" where
  "separate E sep0 f =
     (let res = initial_result\<lparr>models := fol_models f\<rparr>;
          (mapping, sep1) = add_models (add_model E) sep0 (\<lambda>l. []) (fol_models f);
          p = concat (map mapping (constraint_pos f));
          ng = concat (map mapping (constraint_neg f));
          im = concat (map (\<lambda>(a, b). List.product (mapping a) (mapping b))
                 (constraint_imp f))
      in case separate_call E sep1 p ng im of
           Inl e \<Rightarrow>
             if e = TimeoutException then Inr (res\<lparr>reason := ''timeout''\<rparr>) else Inl e
         | Inr (c, sep2) \<Rightarrow>
             (case c of
                None \<Rightarrow> Inr (res\<lparr>reason := couldnt_separate\<rparr>)
              | Some c' \<Rightarrow>
                  (case print_checks c' (fol_models f) of
                     None \<Rightarrow> Inr (res\<lparr>current := c', success := True\<rparr>)
                   | Some e \<Rightarrow>
                       if e = TimeoutException
                       then Inr (res\<lparr>current := c', success := True, reason := ''timeout''\<rparr>)
                       else Inl e)))"

text \<open>
  One query of the external half: the assertions, then \<open>solve_with_cvc4\<close>.
\<close>

definition cvc4_query ::
  "(Formula \<Rightarrow> Formula \<Rightarrow> error + 's) \<Rightarrow> ('s \<Rightarrow> error + 't) \<Rightarrow> ('t \<Rightarrow> run_outcome) \<Rightarrow>
     (string list \<Rightarrow> error + Model) \<Rightarrow> Formula \<Rightarrow> Formula \<Rightarrow>
     error + (CheckSatResult \<times> Model option)" where
  "cvc4_query assert_query preprocess run parse_model a b =
     (case assert_query a b of
        Inl e \<Rightarrow> Inl e
      | Inr s \<Rightarrow> solve_with_cvc4 preprocess run parse_model s)"

text \<open>
  \<open>k\<close> is the first cardinality bound, from 1 on and below 100000, under which the
  embedded solver answers \<open>sat\<close>; under every smaller bound it answers something else
  without raising.
\<close>

definition first_bounded_model ::
  "(nat option \<Rightarrow> Formula \<Rightarrow> Formula \<Rightarrow> error + CheckSatResult) \<Rightarrow>
     Formula \<Rightarrow> Formula \<Rightarrow> nat \<Rightarrow> bool" where
  "first_bounded_model solver_check a b k \<longleftrightarrow>
     1 \<le> k \<and> k < 100000 \<and>
     (\<forall>j \<in> {1..<k}. \<exists>r. solver_check (Some j) a b = Inr r \<and> r \<noteq> sat) \<and>
     solver_check (Some k) a b = Inr sat"

text \<open>
  In the iteration of \<open>learn\<close> that starts in state \<open>st\<close> the oracle returns the
  counterexample \<open>m\<close>, the timer has not expired, and the separator's \<open>separate\<close>
  returns \<open>None\<close>.
\<close>

definition cannot_separate_at ::
  "'sep collaborators \<Rightarrow> Formula \<Rightarrow> 'sep learn_state \<Rightarrow> Model \<Rightarrow> bool" where
  "cannot_separate_at E formula st m \<longleftrightarrow>
     (if \<not> no_cvc4 E
      then oracle_cvc4 E (length (models (result st))) (current (result st)) formula
      else oracle_z3 E (length (models (result st))) (current (result st)) formula)
       = Inr (Some m) \<and>
     \<not> timed_out E (length (models (result st))) \<and>
     (let (ident, sep1) = add_model E (separator st) m
      in map_sum id fst
           (separate_call E sep1
              (if take 1 (label m) = ''+'' then p_constraints st @ [ident]
               else p_constraints st)
              (if take 1 (label m) = ''+'' then n_constraints st
               else n_constraints st @ [ident])
              []) = Inr None)"

text \<open>In batch mode the separator's \<open>separate\<close> returns \<open>None\<close>.\<close>

definition batch_cannot_separate :: "'sep collaborators \<Rightarrow> 'sep \<Rightarrow> FOLFile \<Rightarrow> bool" where
  "batch_cannot_separate E sep0 f \<longleftrightarrow>
     (let (mapping, sep1) = add_models (add_model E) sep0 (\<lambda>l. []) (fol_models f)
      in map_sum id fst
           (separate_call E sep1
              (concat (map mapping (constraint_pos f)))
              (concat (map mapping (constraint_neg f)))
              (concat (map (\<lambda>(a, b). List.product (mapping a) (mapping b))
                 (constraint_imp f)))) = Inr None)"

section \<open>Formulas over a signature\<close>

text \<open>
  The sort of a term under a typing of the bound variables, as \<open>Environment.lookup_var\<close>
  resolves names: a bound variable first, a constant of the signature second. A function
  application has the declared result sort when its arguments have the declared
  argument sorts.
\<close>

fun sort_of_term :: "Signature \<Rightarrow> (string \<rightharpoonup> string) \<Rightarrow> Term \<Rightarrow> string option" where
  "sort_of_term sg \<Gamma> (Var x) =
     (case \<Gamma> x of Some s \<Rightarrow> Some s | None \<Rightarrow> sig_constants sg x)"
| "sort_of_term sg \<Gamma> (Func f args) =
     (case sig_functions sg f of
        None \<Rightarrow> None
      | Some (srts, ret) \<Rightarrow>
          if map (sort_of_term sg \<Gamma>) args = map Some srts then Some ret else None)"

text \<open>
  A formula over the signature: every relation and function is declared and applied to
  arguments of the declared sorts, both sides of an equality have the same sort, every
  quantifier ranges over a declared sort, and every variable is bound by a quantifier
  or is a declared constant. With the empty typing the formula has no free variable.
\<close>

fun formula_over_sig :: "Signature \<Rightarrow> (string \<rightharpoonup> string) \<Rightarrow> Formula \<Rightarrow> bool" where
  "formula_over_sig sg \<Gamma> (And c) = list_all (formula_over_sig sg \<Gamma>) c"
| "formula_over_sig sg \<Gamma> (Or c) = list_all (formula_over_sig sg \<Gamma>) c"
| "formula_over_sig sg \<Gamma> (Not f) = formula_over_sig sg \<Gamma> f"
| "formula_over_sig sg \<Gamma> (Equal a b) =
     (sort_of_term sg \<Gamma> a \<noteq> None \<and> sort_of_term sg \<Gamma> a = sort_of_term sg \<Gamma> b)"
| "formula_over_sig sg \<Gamma> (Relation r args) =
     (case sig_relations sg r of
        None \<Rightarrow> False
      | Some srts \<Rightarrow> map (sort_of_term sg \<Gamma>) args = map Some srts)"
| "formula_over_sig sg \<Gamma> (Forall v s f) =
     (s \<in> sig_sorts sg \<and> formula_over_sig sg (\<Gamma>(v \<mapsto> s)) f)"
| "formula_over_sig sg \<Gamma> (Exists v s f) =
     (s \<in> sig_sorts sg \<and> formula_over_sig sg (\<Gamma>(v \<mapsto> s)) f)"

text \<open>
  A model respects the sorts of a signature when every constant it interprets denotes
  an element of the constant's sort and every function value on arguments of the
  argument sorts is an element of the result sort. \<open>model_is_complete_wrt_sig\<close> does not
  test this.
\<close>

definition model_well_sorted :: "Model \<Rightarrow> Signature \<Rightarrow> bool" where
  "model_well_sorted m sg \<longleftrightarrow>
     (\<forall>c \<in> dom (sig_constants sg).
        case m_constants m c of
          None \<Rightarrow> True
        | Some e \<Rightarrow> e \<in> set (elems_of_sort m (the (sig_constants sg c)))) \<and>
     (\<forall>f \<in> dom (sig_functions sg).
        case m_functions m f of
          None \<Rightarrow> True
        | Some tbl \<Rightarrow>
            (\<forall>t \<in> set (product_lists
                         (map (elems_of_sort m) (fst (the (sig_functions sg f))))).
               case tbl t of
                 None \<Rightarrow> True
               | Some r \<Rightarrow> r \<in> set (elems_of_sort m (snd (the (sig_functions sg f))))))"

text \<open>
  The assumptions of an evaluation agree with a typing: exactly the typed variables
  are assigned, each to an element of its sort.
\<close>

definition env_ok :: "Model \<Rightarrow> (string \<rightharpoonup> string) \<Rightarrow> (string \<rightharpoonup> nat) \<Rightarrow> bool" where
  "env_ok m \<Gamma> A \<longleftrightarrow>
     (\<forall>v. case \<Gamma> v of
            None \<Rightarrow> A v = None
          | Some s \<Rightarrow> (\<exists>e. A v = Some e \<and> e \<in> set (elems_of_sort m s)))"

section \<open>Example signature and models\<close>

text \<open>
  Two sorts \<open>A\<close> and \<open>B\<close>, a unary relation \<open>r\<close> on \<open>A\<close>, a constant \<open>c\<close> of sort \<open>A\<close>
  and a function \<open>f\<close> from \<open>A\<close> to \<open>A\<close>. \<open>ex_model\<close> has the elements \<open>a0\<close> (id 0, sort
  \<open>A\<close>) and \<open>b0\<close> (id 1, sort \<open>B\<close>). \<open>ex_model_ill_sorted\<close> differs in the constant
  \<open>c\<close>, which denotes \<open>b0\<close>.
\<close>

definition ex_sig :: Signature where
  "ex_sig =
     \<lparr>sig_sorts = {''A'', ''B''},
      sort_names = [''A'', ''B''],
      sort_indices = [''A'' \<mapsto> 0, ''B'' \<mapsto> 1],
      sig_relations = [''r'' \<mapsto> [''A'']],
      sig_constants = [''c'' \<mapsto> ''A''],
      sig_functions = [''f'' \<mapsto> ([''A''], ''A'')]\<rparr>"

definition ex_model :: Model where
  "ex_model =
     \<lparr>label = [], names = [''a0'', ''b0''],
      elems = [''a0'' \<mapsto> 0, ''b0'' \<mapsto> 1],
      sorts = [''A'', ''B''],
      elems_of_sort = (\<lambda>s. if s = ''A'' then [0] else if s = ''B'' then [1] else []),
      elems_of_sort_index = [[0], [1]],
      m_constants = [''c'' \<mapsto> 0],
      m_relations = [''r'' \<mapsto> {[0]}],
      m_functions = [''f'' \<mapsto> [[0] \<mapsto> 0]],
      model_sig = ex_sig\<rparr>"

definition ex_model_ill_sorted :: Model where
  "ex_model_ill_sorted = ex_model\<lparr>m_constants := [''c'' \<mapsto> 1]\<rparr>"

definition ex_formula :: Formula where
  "ex_formula =
     Forall ''x'' ''A''
       (Or [Not (Relation ''r'' [Var ''x'']), Equal (Func ''f'' [Var ''x'']) (Var ''c'')])"

text \<open>
  An embedded solver that finds the query "\<open>And []\<close> and not \<open>Or []\<close>" satisfiable,
  without an answer under the cardinality bound 1 and with a model under the bound 2,
  and every other query unsatisfiable; an external solver that answers \<open>sat\<close> on the
  same query and \<open>unsat\<close> on every other. Both hand out \<open>ex_model\<close>.
\<close>

definition ex_solver_check :: "nat option \<Rightarrow> Formula \<Rightarrow> Formula \<Rightarrow> error + CheckSatResult" where
  "ex_solver_check bnd a b =
     (if a = And [] \<and> b = Or [] then (if bnd = Some 1 then Inr unknown else Inr sat)
      else Inr unsat)"

definition ex_solver_model :: "nat option \<Rightarrow> Formula \<Rightarrow> Formula \<Rightarrow> unit" where
  "ex_solver_model bnd a b = ()"

definition ex_build :: "unit \<Rightarrow> error + Model" where
  "ex_build zm = Inr ex_model"

definition ex_assert_query :: "Formula \<Rightarrow> Formula \<Rightarrow> error + (Formula \<times> Formula)" where
  "ex_assert_query a b = Inr (a, b)"

definition ex_preprocess :: "Formula \<times> Formula \<Rightarrow> error + (Formula \<times> Formula)" where
  "ex_preprocess s = Inr s"

definition ex_run :: "Formula \<times> Formula \<Rightarrow> run_outcome" where
  "ex_run q =
     (if q = (And [], Or []) then CompletedProcess 0 [''sat'']
      else CompletedProcess 0 [''unsat''])"

definition ex_parse_model :: "string list \<Rightarrow> error + Model" where
  "ex_parse_model ls = Inr ex_model"

text \<open>
  A run whose separator counts the registered models, proposes the formula \<open>Or []\<close>
  after the first model and has no candidate otherwise; and a file with one positive
  and one negative model.
\<close>

definition ex_collaborators :: "nat collaborators" where
  "ex_collaborators =
     \<lparr>no_cvc4 = False,
      oracle_cvc4 =
        (\<lambda>n. find_model_or_equivalence_cvc4 ex_assert_query ex_preprocess ex_run ex_parse_model),
      oracle_z3 = (\<lambda>n. find_model_or_equivalence ex_solver_check ex_solver_model ex_build),
      timed_out = (\<lambda>n. False),
      add_model = (\<lambda>sp m. (sp, Suc sp)),
      separate_call =
        (\<lambda>sp p ng im. if sp = 1 then Inr (Some (Or []), sp) else Inr (None, sp)),
      assert_axioms = None\<rparr>"

definition ex_state1 :: "nat learn_state" where
  "ex_state1 =
     \<lparr>result = \<lparr>success = False, current = Or [],
                 models = [ex_model\<lparr>label := ''+''\<rparr>], reason = []\<rparr>,
      separator = 1, p_constraints = [0], n_constraints = []\<rparr>"

definition ex_file :: FOLFile where
  "ex_file =
     \<lparr>fol_models = [ex_model\<lparr>label := ''+''\<rparr>, ex_model\<lparr>label := ''-''\<rparr>],
      constraint_pos = [''+''], constraint_neg = [''-''], constraint_imp = []\<rparr>"

section \<open>Properties of the direct evaluator\<close>

lemma check_forall_dual:
  "check_forall f m A v es =
     (case check_exists (Not f) m A v es of Inl e \<Rightarrow> Inl e | Inr b \<Rightarrow> Inr (\<not> b))"
  by (induction es) (auto split: sum.splits)

text \<open>
  C7. Quantifier duality: for every formula, model, variable, sort and assumption map,
  \<open>check(Forall(v, s, f), m, A)\<close> is the negation of \<open>check(Exists(v, s, Not(f)), m, A)\<close>;
  when one of the two evaluations raises, the other raises the same exception.
\<close>

theorem quantifier_duality:
  "check (Forall v s f) m A =
     (case check (Exists v s (Not f)) m A of Inl e \<Rightarrow> Inl e | Inr b \<Rightarrow> Inr (\<not> b))"
  by (simp add: check_forall_dual)

text \<open>
  C8. For every model and assumption map the empty conjunction evaluates to true and
  the empty disjunction to false.
\<close>

theorem check_empty_and_or:
  "check (And []) m A = Inr True \<and> check (Or []) m A = Inr False"
  by simp

text \<open>
  C10. When a sort has no element in the model (\<open>elems_of_sort\<close> reads as the empty
  list, as it does for a sort that was never added), a universal quantifier over it
  evaluates to true and an existential one to false, whatever the body, and nothing
  is raised.
\<close>

theorem check_empty_sort:
  "elems_of_sort m s = [] \<Longrightarrow>
     check (Forall v s f) m A = Inr True \<and> check (Exists v s f) m A = Inr False"
  by simp

theorem check_empty_sort_witness:
  "elems_of_sort (Model_init ex_sig) ''C'' = [] \<and>
   check (Forall ''x'' ''C'' (Relation ''undeclared'' [Var ''y''])) (Model_init ex_sig) Map.empty
     = Inr True \<and>
   check (Exists ''x'' ''C'' (Relation ''undeclared'' [Var ''y''])) (Model_init ex_sig) Map.empty
     = Inr False"
proof -
  have h: "elems_of_sort (Model_init ex_sig) ''C'' = []"
    by (simp add: Model_init_def)
  from h check_empty_sort [OF h] show ?thesis by blast
qed

section \<open>Properties of renaming\<close>

text \<open>
  C9. Under a \<open>Forall\<close> or \<open>Exists\<close> whose bound variable \<open>v\<close> is a key of the mapping,
  \<open>rename_free_vars\<close> renames the body with the mapping minus the key \<open>v\<close>: every other
  entry still applies inside the body, and a sibling outside the binder is renamed with
  the full mapping, so an occurrence of \<open>v\<close> there is still substituted.
\<close>

theorem rename_free_vars_binder:
  "v \<in> dom mapping \<Longrightarrow>
     rename_free_vars (Forall v s f) mapping =
       Forall v s (rename_free_vars f (mapping(v := None))) \<and>
     rename_free_vars (Exists v s f) mapping =
       Exists v s (rename_free_vars f (mapping(v := None))) \<and>
     (\<forall>k. k \<noteq> v \<longrightarrow> (mapping(v := None)) k = mapping k) \<and>
     rename_free_vars (And [Forall v s f, g]) mapping =
       And [Forall v s (rename_free_vars f (mapping(v := None))), rename_free_vars g mapping] \<and>
     rename_free_vars_term (Var v) mapping = Var (the (mapping v))"
proof -
  assume v: "v \<in> dom mapping"
  have eq: "(\<lambda>a. if a \<noteq> v then mapping a else None) = mapping(v := None)"
    by (rule ext) simp
  show ?thesis using v by (auto simp: eq)
qed

theorem rename_free_vars_binder_witness:
  "''x'' \<in> dom [''x'' \<mapsto> ''y'', ''z'' \<mapsto> ''w''] \<and>
   rename_free_vars (Forall ''x'' ''A'' (Relation ''r'' [Var ''x'', Var ''z'']))
       [''x'' \<mapsto> ''y'', ''z'' \<mapsto> ''w''] =
     Forall ''x'' ''A'' (Relation ''r'' [Var ''x'', Var ''w'']) \<and>
   rename_free_vars (Exists ''x'' ''A'' (Relation ''r'' [Var ''x'', Var ''z'']))
       [''x'' \<mapsto> ''y'', ''z'' \<mapsto> ''w''] =
     Exists ''x'' ''A'' (Relation ''r'' [Var ''x'', Var ''w'']) \<and>
   rename_free_vars
       (And [Forall ''x'' ''A'' (Relation ''r'' [Var ''x'', Var ''z'']), Relation ''q'' [Var ''x'']])
       [''x'' \<mapsto> ''y'', ''z'' \<mapsto> ''w''] =
     And [Forall ''x'' ''A'' (Relation ''r'' [Var ''x'', Var ''w'']), Relation ''q'' [Var ''y'']]"
proof -
  have h: "''x'' \<in> dom [''x'' \<mapsto> ''y'', ''z'' \<mapsto> ''w'']" by simp
  from h rename_free_vars_binder
    [OF h, of "''A''" "Relation ''r'' [Var ''x'', Var ''z'']" "Relation ''q'' [Var ''x'']"]
  show ?thesis by simp
qed

section \<open>Properties of the environment\<close>

text \<open>
  C3, as the code behaves. \<open>bind\<close> overwrites the entry of an already bound name and
  \<open>pop\<close> deletes the entry of the name on top of the stack: after
  \<open>e.bind(v, s1); e.bind(v, s2); e.pop()\<close> the name \<open>v\<close> is unbound, \<open>lookup_var(v)\<close>
  returns the sort of the signature's constant \<open>v\<close> (or \<open>None\<close>) and not \<open>s1\<close>, and \<open>v\<close>
  is still on the stack. For a name that was not bound, \<open>bind\<close> followed by \<open>pop\<close>
  gives the environment back.
\<close>

theorem env_rebind_pop:
  "pop (bind (bind e v s1) v s2) =
     Inr (e\<lparr>bound := (bound e)(v := None), stack := stack e @ [v]\<rparr>) \<and>
   lookup_var (e\<lparr>bound := (bound e)(v := None), stack := stack e @ [v]\<rparr>) v =
     sig_constants (env_sig e) v \<and>
   (v \<notin> dom (bound e) \<longrightarrow> pop (bind e v s1) = Inr e)"
proof -
  have a: "pop (bind (bind e v s1) v s2) =
     Inr (e\<lparr>bound := (bound e)(v := None), stack := stack e @ [v]\<rparr>)"
    by (simp add: pop_def bind_def Let_def butlast_append)
  have b: "lookup_var (e\<lparr>bound := (bound e)(v := None), stack := stack e @ [v]\<rparr>) v =
     sig_constants (env_sig e) v"
    by (cases "sig_constants (env_sig e) v") (auto simp: lookup_var_def)
  have c: "v \<notin> dom (bound e) \<longrightarrow> pop (bind e v s1) = Inr e"
  proof
    assume "v \<notin> dom (bound e)"
    then have "(bound e)(v := None) = bound e" by (auto simp: fun_upd_idem_iff)
    then show "pop (bind e v s1) = Inr e"
      by (simp add: pop_def bind_def Let_def)
  qed
  from a b c show ?thesis by blast
qed

theorem env_rebind_pop_witness:
  "''x'' \<notin> dom (bound (Environment_init ex_sig)) \<and>
   pop (bind (Environment_init ex_sig) ''x'' ''A'') = Inr (Environment_init ex_sig) \<and>
   pop (bind (bind (Environment_init ex_sig) ''x'' ''A'') ''x'' ''B'') =
     Inr ((Environment_init ex_sig)\<lparr>bound := (bound (Environment_init ex_sig))(''x'' := None),
            stack := stack (Environment_init ex_sig) @ [''x'']\<rparr>)"
proof -
  have h: "''x'' \<notin> dom (bound (Environment_init ex_sig))"
    by (simp add: Environment_init_def)
  from h env_rebind_pop [of "Environment_init ex_sig" "''x''" "''A''" "''B''"]
  show ?thesis by blast
qed

text \<open>
  The claim as written fails: with \<open>x\<close> bound to \<open>A\<close>, then to \<open>B\<close>, then popped,
  \<open>lookup_var\<close> does not return \<open>A\<close>.
\<close>

theorem env_shadowing_counterexample:
  "map_sum id (\<lambda>e. lookup_var e ''x'')
     (pop (bind (bind (Environment_init ex_sig) ''x'' ''A'') ''x'' ''B'')) = Inr None \<and>
   map_sum id (\<lambda>e. lookup_var e ''x'')
     (pop (bind (bind (Environment_init ex_sig) ''x'' ''A'') ''x'' ''B'')) \<noteq> Inr (Some ''A'')"
  by (simp add: pop_def bind_def Environment_init_def lookup_var_def ex_sig_def Let_def)

section \<open>Evaluation on complete models\<close>

lemma env_ok_upd:
  assumes "env_ok m \<Gamma> A" and "e \<in> set (elems_of_sort m s)"
  shows "env_ok m (\<Gamma>(v \<mapsto> s)) (A(v \<mapsto> e))"
  unfolding env_ok_def
proof
  fix va
  from assms(1) have "case \<Gamma> va of None \<Rightarrow> A va = None
      | Some s \<Rightarrow> (\<exists>e. A va = Some e \<and> e \<in> set (elems_of_sort m s))"
    unfolding env_ok_def by blast
  with assms(2) show "case (\<Gamma>(v \<mapsto> s)) va of None \<Rightarrow> (A(v \<mapsto> e)) va = None
      | Some s \<Rightarrow> (\<exists>ea. (A(v \<mapsto> e)) va = Some ea \<and> ea \<in> set (elems_of_sort m s))"
    by (cases "va = v") (auto split: option.splits)
qed

lemma env_ok_lookup:
  assumes "env_ok m \<Gamma> A"
  shows "\<Gamma> x = None \<Longrightarrow> A x = None"
    and "\<Gamma> x = Some s \<Longrightarrow> \<exists>e. A x = Some e \<and> e \<in> set (elems_of_sort m s)"
proof -
  from assms have h: "case \<Gamma> x of None \<Rightarrow> A x = None
      | Some s \<Rightarrow> (\<exists>e. A x = Some e \<and> e \<in> set (elems_of_sort m s))"
    unfolding env_ok_def by blast
  show "\<Gamma> x = None \<Longrightarrow> A x = None" using h by simp
  show "\<Gamma> x = Some s \<Longrightarrow> \<exists>e. A x = Some e \<and> e \<in> set (elems_of_sort m s)"
    using h by simp
qed

lemma product_lists_Cons_iff:
  "x # xs \<in> set (product_lists (ys # yss)) \<longleftrightarrow> x \<in> set ys \<and> xs \<in> set (product_lists yss)"
  unfolding product_lists_set by simp

lemma complete_constant:
  "model_is_complete_wrt_sig m sg \<Longrightarrow> sig_constants sg x = Some s \<Longrightarrow>
     \<exists>d. m_constants m x = Some d"
  unfolding model_is_complete_wrt_sig_def by blast

lemma complete_function:
  assumes "model_is_complete_wrt_sig m sg" and "sig_functions sg f = Some (srts, ret)"
  shows "\<exists>tbl. m_functions m f = Some tbl \<and>
           (\<forall>t \<in> set (product_lists (map (elems_of_sort m) srts)). t \<in> dom tbl)"
proof -
  from assms(2) have fd: "f \<in> dom (sig_functions sg)" by blast
  from assms(1) have "\<forall>func \<in> dom (sig_functions sg).
        func \<in> dom (m_functions m) \<and>
        (\<forall>t \<in> set (product_lists
                     (map (elems_of_sort m) (fst (the (sig_functions sg func))))).
           t \<in> dom (the (m_functions m func)))"
    unfolding model_is_complete_wrt_sig_def by blast
  from bspec [OF this fd] assms(2) show ?thesis by auto
qed

lemma well_sorted_constant:
  assumes "model_well_sorted m sg" and "sig_constants sg x = Some s"
    and "m_constants m x = Some d"
  shows "d \<in> set (elems_of_sort m s)"
proof -
  from assms(2) have xd: "x \<in> dom (sig_constants sg)" by blast
  from assms(1) have "\<forall>c \<in> dom (sig_constants sg).
        case m_constants m c of
          None \<Rightarrow> True
        | Some e \<Rightarrow> e \<in> set (elems_of_sort m (the (sig_constants sg c)))"
    unfolding model_well_sorted_def by blast
  from bspec [OF this xd] assms(2,3) show ?thesis by simp
qed

lemma well_sorted_function:
  assumes "model_well_sorted m sg" and "sig_functions sg f = Some (srts, ret)"
    and "m_functions m f = Some tbl"
    and "t \<in> set (product_lists (map (elems_of_sort m) srts))"
    and "tbl t = Some r"
  shows "r \<in> set (elems_of_sort m ret)"
proof -
  from assms(2) have fd: "f \<in> dom (sig_functions sg)" by blast
  from assms(1) have "\<forall>f \<in> dom (sig_functions sg).
        case m_functions m f of
          None \<Rightarrow> True
        | Some tbl \<Rightarrow>
            (\<forall>t \<in> set (product_lists
                         (map (elems_of_sort m) (fst (the (sig_functions sg f))))).
               case tbl t of
                 None \<Rightarrow> True
               | Some r \<Rightarrow> r \<in> set (elems_of_sort m (snd (the (sig_functions sg f)))))"
    unfolding model_well_sorted_def by blast
  from bspec [OF this fd] assms(2,3) have
    "\<forall>t \<in> set (product_lists (map (elems_of_sort m) srts)).
       case tbl t of None \<Rightarrow> True | Some r \<Rightarrow> r \<in> set (elems_of_sort m ret)"
    by (auto split: option.splits)
  from bspec [OF this assms(4)] assms(5) show ?thesis by simp
qed

lemma resolve_var_ok:
  assumes c: "model_is_complete_wrt_sig m sg" and w: "model_well_sorted m sg"
    and e: "env_ok m \<Gamma> A" and s: "sort_of_term sg \<Gamma> (Var x) = Some s"
  shows "\<exists>e. resolve_term (Var x) m A = Inr e \<and> e \<in> set (elems_of_sort m s)"
proof (cases "\<Gamma> x")
  case (Some s')
  with s have "s' = s" by simp
  with Some env_ok_lookup(2) [OF e] obtain d where
    "A x = Some d" "d \<in> set (elems_of_sort m s)" by blast
  then show ?thesis by simp
next
  case None
  with env_ok_lookup(1) [OF e] have a: "A x = None" by blast
  from None s have sc: "sig_constants sg x = Some s" by simp
  with complete_constant [OF c] obtain d where d: "m_constants m x = Some d" by blast
  from well_sorted_constant [OF w sc d] a d show ?thesis by simp
qed

lemma resolve_func_ok:
  assumes c: "model_is_complete_wrt_sig m sg" and w: "model_well_sorted m sg"
    and f: "sig_functions sg f = Some (srts, ret)"
    and r: "resolve_terms args m A = Inr es"
    and p: "es \<in> set (product_lists (map (elems_of_sort m) srts))"
  shows "\<exists>e. resolve_term (Func f args) m A = Inr e \<and> e \<in> set (elems_of_sort m ret)"
proof -
  from complete_function [OF c f] obtain tbl where
    t: "m_functions m f = Some tbl"
    and d: "\<forall>t \<in> set (product_lists (map (elems_of_sort m) srts)). t \<in> dom tbl" by blast
  from d p obtain x where x: "tbl es = Some x" by blast
  from well_sorted_function [OF w f t p x] t r x show ?thesis by simp
qed

lemma resolve_ok:
  "model_is_complete_wrt_sig m sg \<Longrightarrow> model_well_sorted m sg \<Longrightarrow>
   env_ok m \<Gamma> A \<Longrightarrow> sort_of_term sg \<Gamma> t = Some s \<Longrightarrow>
     \<exists>e. resolve_term t m A = Inr e \<and> e \<in> set (elems_of_sort m s)"
  "model_is_complete_wrt_sig m sg \<Longrightarrow> model_well_sorted m sg \<Longrightarrow>
   env_ok m \<Gamma> A \<Longrightarrow> map (sort_of_term sg \<Gamma>) ts = map Some srts \<Longrightarrow>
     \<exists>es. resolve_terms ts m A = Inr es \<and>
          es \<in> set (product_lists (map (elems_of_sort m) srts))"
proof (induction t m A and ts m A arbitrary: s and srts
       rule: resolve_term_resolve_terms.induct)
  case (1 x m A)
  then show ?case using resolve_var_ok by blast
next
  case (2 f args m A)
  note c = "2.prems"(1) and w = "2.prems"(2) and e = "2.prems"(3)
  from "2.prems"(4) obtain srts ret where
    f: "sig_functions sg f = Some (srts, ret)"
    and a: "map (sort_of_term sg \<Gamma>) args = map Some srts" and "s = ret"
    by (auto split: option.splits if_splits)
  from complete_function [OF c f] obtain tbl where t: "m_functions m f = Some tbl"
    by blast
  from "2.IH" [OF t c w e a] obtain es where
    "resolve_terms args m A = Inr es"
    "es \<in> set (product_lists (map (elems_of_sort m) srts))" by blast
  with resolve_func_ok [OF c w f] \<open>s = ret\<close> show ?case by blast
next
  case (3 m A)
  then show ?case by simp
next
  case (4 t ts m A)
  note c = "4.prems"(1) and w = "4.prems"(2) and e = "4.prems"(3)
  from "4.prems"(4) obtain s' srts' where
    srts: "srts = s' # srts'" and t: "sort_of_term sg \<Gamma> t = Some s'"
    and ts: "map (sort_of_term sg \<Gamma>) ts = map Some srts'"
    by (cases srts) auto
  from "4.IH"(1) [OF c w e t] obtain x where
    x: "resolve_term t m A = Inr x" "x \<in> set (elems_of_sort m s')" by blast
  from "4.IH"(2) [OF x(1) c w e ts] obtain xs where
    xs: "resolve_terms ts m A = Inr xs"
        "xs \<in> set (product_lists (map (elems_of_sort m) srts'))" by blast
  from x xs srts show ?case by (simp add: product_lists_set del: product_lists.simps)
qed


lemma complete_relation:
  "model_is_complete_wrt_sig m sg \<Longrightarrow> sig_relations sg r = Some srts \<Longrightarrow>
     \<exists>tuples. m_relations m r = Some tuples"
  unfolding model_is_complete_wrt_sig_def by blast

lemma check_ok:
  "model_is_complete_wrt_sig m sg \<Longrightarrow> model_well_sorted m sg \<Longrightarrow>
   env_ok m \<Gamma> A \<Longrightarrow> formula_over_sig sg \<Gamma> f \<Longrightarrow> \<exists>b. check f m A = Inr b"
  "model_is_complete_wrt_sig m sg \<Longrightarrow> model_well_sorted m sg \<Longrightarrow>
   env_ok m \<Gamma> A \<Longrightarrow> list_all (formula_over_sig sg \<Gamma>) c \<Longrightarrow>
     \<exists>b. check_and c m A = Inr b"
  "model_is_complete_wrt_sig m sg \<Longrightarrow> model_well_sorted m sg \<Longrightarrow>
   env_ok m \<Gamma> A \<Longrightarrow> list_all (formula_over_sig sg \<Gamma>) d \<Longrightarrow>
     \<exists>b. check_or d m A = Inr b"
  "model_is_complete_wrt_sig m sg \<Longrightarrow> model_well_sorted m sg \<Longrightarrow>
   env_ok m \<Gamma> A \<Longrightarrow> formula_over_sig sg (\<Gamma>(v \<mapsto> s)) g \<Longrightarrow>
   set es \<subseteq> set (elems_of_sort m s) \<Longrightarrow> \<exists>b. check_forall g m A v es = Inr b"
  "model_is_complete_wrt_sig m sg \<Longrightarrow> model_well_sorted m sg \<Longrightarrow>
   env_ok m \<Gamma> A \<Longrightarrow> formula_over_sig sg (\<Gamma>(w \<mapsto> s)) h \<Longrightarrow>
   set us \<subseteq> set (elems_of_sort m s) \<Longrightarrow> \<exists>b. check_exists h m A w us = Inr b"
proof (induction f m A and c m A and d m A and g m A v es and h m A w us
       arbitrary: \<Gamma> and \<Gamma> and \<Gamma> and \<Gamma> s and \<Gamma> s
       rule: check_check_and_check_or_check_forall_check_exists.induct)
  case (1 c m A)
  from "1.IH" [OF "1.prems"(1,2,3)] "1.prems"(4) show ?case by simp
next
  case (2 c m A)
  from "2.IH" [OF "2.prems"(1,2,3)] "2.prems"(4) show ?case by simp
next
  case (3 f m A)
  from "3.IH" [OF "3.prems"(1,2,3)] "3.prems"(4) show ?case by auto
next
  case (4 a b m A)
  from "4.prems"(4) obtain s where a: "sort_of_term sg \<Gamma> a = Some s"
    and b: "sort_of_term sg \<Gamma> b = Some s"
    by (cases "sort_of_term sg \<Gamma> a") auto
  from resolve_ok(1) [OF "4.prems"(1,2,3) a] obtain x where "resolve_term a m A = Inr x"
    by blast
  moreover
  from resolve_ok(1) [OF "4.prems"(1,2,3) b] obtain y where "resolve_term b m A = Inr y"
    by blast
  ultimately show ?case by simp
next
  case (5 r args m A)
  from "5.prems"(4) obtain srts where
    r: "sig_relations sg r = Some srts"
    and a: "map (sort_of_term sg \<Gamma>) args = map Some srts"
    by (auto split: option.splits)
  from resolve_ok(2) [OF "5.prems"(1,2,3) a] obtain es where
    "resolve_terms args m A = Inr es" by blast
  moreover
  from complete_relation [OF "5.prems"(1) r] obtain tuples where
    "m_relations m r = Some tuples" by blast
  ultimately show ?case by simp
next
  case (6 v s f m A)
  from "6.prems"(4) have "formula_over_sig sg (\<Gamma>(v \<mapsto> s)) f" by simp
  from "6.IH" [OF "6.prems"(1,2,3) this] show ?case by simp
next
  case (7 v s f m A)
  from "7.prems"(4) have "formula_over_sig sg (\<Gamma>(v \<mapsto> s)) f" by simp
  from "7.IH" [OF "7.prems"(1,2,3) this] show ?case by simp
next
  case (8 m A)
  show ?case by auto
next
  case (9 f fs m A)
  from "9.prems"(4) have f: "formula_over_sig sg \<Gamma> f"
    and fs: "list_all (formula_over_sig sg \<Gamma>) fs" by simp_all
  from "9.IH"(1) [OF "9.prems"(1,2,3) f] obtain b where b: "check f m A = Inr b"
    by blast
  show ?case
  proof (cases b)
    case True
    with b "9.IH"(2) [OF b _ "9.prems"(1,2,3) fs] show ?thesis by auto
  next
    case False
    with b show ?thesis by auto
  qed
next
  case (10 m A)
  show ?case by auto
next
  case (11 f fs m A)
  from "11.prems"(4) have f: "formula_over_sig sg \<Gamma> f"
    and fs: "list_all (formula_over_sig sg \<Gamma>) fs" by simp_all
  from "11.IH"(1) [OF "11.prems"(1,2,3) f] obtain b where b: "check f m A = Inr b"
    by blast
  show ?case
  proof (cases b)
    case True
    with b show ?thesis by auto
  next
    case False
    with b "11.IH"(2) [OF b _ "11.prems"(1,2,3) fs] show ?thesis by auto
  qed
next
  case (12 f m A v)
  show ?case by auto
next
  case (13 f m A v e es)
  from "13.prems"(5) have e: "e \<in> set (elems_of_sort m s)"
    and es: "set es \<subseteq> set (elems_of_sort m s)" by simp_all
  from env_ok_upd [OF "13.prems"(3) e] have ok: "env_ok m (\<Gamma>(v \<mapsto> s)) (A(v \<mapsto> e))" .
  from "13.IH"(1) [OF "13.prems"(1,2) ok "13.prems"(4)] obtain b where
    b: "check f m (A(v \<mapsto> e)) = Inr b" by blast
  show ?case
  proof (cases b)
    case True
    with b "13.IH"(2) [OF b _ "13.prems"(1,2,3,4) es] show ?thesis by auto
  next
    case False
    with b show ?thesis by auto
  qed
next
  case (14 f m A v)
  show ?case by auto
next
  case (15 f m A v e es)
  from "15.prems"(5) have e: "e \<in> set (elems_of_sort m s)"
    and es: "set es \<subseteq> set (elems_of_sort m s)" by simp_all
  from env_ok_upd [OF "15.prems"(3) e] have ok: "env_ok m (\<Gamma>(v \<mapsto> s)) (A(v \<mapsto> e))" .
  from "15.IH"(1) [OF "15.prems"(1,2) ok "15.prems"(4)] obtain b where
    b: "check f m (A(v \<mapsto> e)) = Inr b" by blast
  show ?case
  proof (cases b)
    case True
    with b show ?thesis by auto
  next
    case False
    with b "15.IH"(2) [OF b _ "15.prems"(1,2,3,4) es] show ?thesis by auto
  qed
qed

lemma ex_model_complete: "model_is_complete_wrt_sig ex_model ex_sig"
  by (simp add: model_is_complete_wrt_sig_def ex_model_def ex_sig_def)

lemma ex_model_well_sorted: "model_well_sorted ex_model ex_sig"
  by (simp add: model_well_sorted_def ex_model_def ex_sig_def)

lemma ex_formula_over_sig: "formula_over_sig ex_sig Map.empty ex_formula"
  by (simp add: ex_formula_def ex_sig_def)

lemma ex_check: "check ex_formula ex_model Map.empty = Inr True"
  by (simp add: ex_formula_def ex_model_def)

text \<open>
  In a formula over the signature every name that \<open>free_vars\<close> yields is typed by the
  context or is a constant of the signature; with the empty context only constants
  remain.
\<close>

lemma sorted_args:
  assumes "map (sort_of_term sg \<Gamma>) args = map Some srts" and "a \<in> set args"
  shows "\<exists>s. sort_of_term sg \<Gamma> a = Some s"
proof -
  from assms(2) have "sort_of_term sg \<Gamma> a \<in> set (map (sort_of_term sg \<Gamma>) args)" by simp
  with assms(1) have "sort_of_term sg \<Gamma> a \<in> set (map Some srts)" by simp
  then show ?thesis by auto
qed

lemma free_vars_term_typed:
  "sort_of_term sg \<Gamma> t = Some s \<Longrightarrow>
     set (free_vars_term t) \<subseteq> dom \<Gamma> \<union> dom (sig_constants sg)"
proof (induction t arbitrary: s)
  case (Var x)
  then show ?case by (auto split: option.splits)
next
  case (Func f args)
  from Func.prems obtain srts where
    a: "map (sort_of_term sg \<Gamma>) args = map Some srts"
    by (auto split: option.splits if_splits)
  have "set (free_vars_term a) \<subseteq> dom \<Gamma> \<union> dom (sig_constants sg)" if "a \<in> set args" for a
  proof -
    from sorted_args [OF a that] obtain s' where "sort_of_term sg \<Gamma> a = Some s'" by blast
    from Func.IH [OF that this] show ?thesis .
  qed
  then show ?case by auto
qed

lemma free_vars_terms_typed:
  assumes "map (sort_of_term sg \<Gamma>) args = map Some srts"
  shows "set (concat (map free_vars_term args)) \<subseteq> dom \<Gamma> \<union> dom (sig_constants sg)"
proof -
  have "set (free_vars_term a) \<subseteq> dom \<Gamma> \<union> dom (sig_constants sg)" if "a \<in> set args" for a
  proof -
    from sorted_args [OF assms that] obtain s' where "sort_of_term sg \<Gamma> a = Some s'" by blast
    then show ?thesis by (rule free_vars_term_typed)
  qed
  then show ?thesis by auto
qed

lemma free_vars_typed:
  "formula_over_sig sg \<Gamma> f \<Longrightarrow> set (free_vars f) \<subseteq> dom \<Gamma> \<union> dom (sig_constants sg)"
proof (induction f arbitrary: \<Gamma>)
  case (And c)
  then show ?case by (fastforce simp: list_all_iff)
next
  case (Or c)
  then show ?case by (fastforce simp: list_all_iff)
next
  case (Not f)
  then show ?case by simp
next
  case (Equal a b)
  then obtain s where "sort_of_term sg \<Gamma> a = Some s" "sort_of_term sg \<Gamma> b = Some s"
    by (cases "sort_of_term sg \<Gamma> a") auto
  from free_vars_term_typed [OF this(1)] free_vars_term_typed [OF this(2)]
  show ?case by simp
next
  case (Relation r args)
  then obtain srts where "map (sort_of_term sg \<Gamma>) args = map Some srts"
    by (auto split: option.splits)
  from free_vars_terms_typed [OF this] show ?case by simp
next
  case (Forall v s f)
  from Forall.prems have "formula_over_sig sg (\<Gamma>(v \<mapsto> s)) f" by simp
  from Forall.IH [OF this] show ?case by auto
next
  case (Exists v s f)
  from Exists.prems have "formula_over_sig sg (\<Gamma>(v \<mapsto> s)) f" by simp
  from Exists.IH [OF this] show ?case by auto
qed

lemma closed_formula_free_vars:
  "formula_over_sig sg Map.empty f \<Longrightarrow> set (free_vars f) \<subseteq> dom (sig_constants sg)"
  using free_vars_typed [of sg Map.empty f] by simp

text \<open>
  The ill-sorted example model is what the constructor and the four \<open>add\<close> methods of
  \<open>Model\<close> produce when the constant \<open>c\<close> is given the element \<open>b0\<close>.
\<close>

lemma ex_model_ill_sorted_built:
  "(case add_elem (Model_init ex_sig) ''a0'' ''A'' of
      Inl e \<Rightarrow> False
    | Inr (r1, m1) \<Rightarrow>
   (case add_elem m1 ''b0'' ''B'' of
      Inl e \<Rightarrow> False
    | Inr (r2, m2) \<Rightarrow>
   (case add_constant m2 ''c'' ''b0'' of
      Inl e \<Rightarrow> False
    | Inr (r3, m3) \<Rightarrow>
   (case add_function m3 ''f'' [''a0''] ''a0'' of
      Inl e \<Rightarrow> False
    | Inr (r4, m4) \<Rightarrow>
   (case add_relation m4 ''r'' [''a0''] of
      Inl e \<Rightarrow> False
    | Inr (r5, m5) \<Rightarrow> m5 = ex_model_ill_sorted)))))"
  by (simp add: add_elem_def add_constant_def add_function_def add_relation_def
        Model_init_def ex_sig_def Let_def ex_model_ill_sorted_def ex_model_def fun_eq_iff)

text \<open>
  C2, as the code behaves. On a model that is complete with respect to the signature
  and whose constants and function values lie in the universes of their declared
  sorts, \<open>check(f, m, {})\<close> returns a boolean for every formula over the signature
  without free variables: no branch that raises is reached. Evaluation is a total
  function, so it terminates.
\<close>

theorem check_total_on_complete_models:
  assumes "model_is_complete_wrt_sig m sg" and "model_well_sorted m sg"
    and "formula_over_sig sg Map.empty f"
  shows "\<exists>b. check f m Map.empty = Inr b"
proof -
  have "env_ok m Map.empty Map.empty" by (simp add: env_ok_def)
  from check_ok(1) [OF assms(1,2) this assms(3)] show ?thesis .
qed

theorem check_total_on_complete_models_witness:
  "model_is_complete_wrt_sig ex_model ex_sig \<and> model_well_sorted ex_model ex_sig \<and>
   formula_over_sig ex_sig Map.empty ex_formula \<and>
   (\<exists>b. check ex_formula ex_model Map.empty = Inr b)"
  using ex_model_complete ex_model_well_sorted ex_formula_over_sig
    check_total_on_complete_models
      [OF ex_model_complete ex_model_well_sorted ex_formula_over_sig]
  by blast

text \<open>
  Completeness alone does not suffice: \<open>model_is_complete_wrt_sig\<close> accepts the model
  whose constant \<open>c\<close> of sort \<open>A\<close> denotes an element of sort \<open>B\<close>, and on it the closed,
  well-sorted formula \<open>f(c) = c\<close> raises \<open>KeyError\<close> at the function table.
\<close>

theorem check_complete_model_counterexample:
  "model_is_complete_wrt_sig ex_model_ill_sorted ex_sig \<and>
   formula_over_sig ex_sig Map.empty (Equal (Func ''f'' [Var ''c'']) (Var ''c'')) \<and>
   check (Equal (Func ''f'' [Var ''c'']) (Var ''c'')) ex_model_ill_sorted Map.empty
     = Inl KeyError"
  by (simp add: model_is_complete_wrt_sig_def ex_model_ill_sorted_def ex_model_def ex_sig_def)

section \<open>Properties of the model's add operations\<close>

text \<open>
  C4, as the code behaves. \<open>add_elem\<close> and \<open>add_constant\<close> return a boolean that tells
  whether the entry was new: on a name that is already present they return \<open>False\<close>
  and leave the model unchanged, without raising; when they return on a new name they
  return \<open>True\<close> and the name is present. \<open>add_relation\<close> and \<open>add_function\<close> return
  \<open>None\<close>, not a boolean.
\<close>

theorem model_add_results:
  "(name \<in> dom (elems m) \<longrightarrow> add_elem m name srt = Inr (PyBool False, m)) \<and>
   (name \<notin> dom (elems m) \<longrightarrow>
      (\<forall>r m'. add_elem m name srt = Inr (r, m') \<longrightarrow>
         r = PyBool True \<and> elems m' name = Some (length (names m)))) \<and>
   (c \<in> dom (m_constants m) \<longrightarrow> add_constant m c el = Inr (PyBool False, m)) \<and>
   (c \<notin> dom (m_constants m) \<longrightarrow>
      (\<forall>r m'. add_constant m c el = Inr (r, m') \<longrightarrow>
         r = PyBool True \<and> m_constants m' c = elems m el)) \<and>
   (\<forall>r m'. add_relation m rel args = Inr (r, m') \<longrightarrow> r = PyNone) \<and>
   (\<forall>r m'. add_function m func args res = Inr (r, m') \<longrightarrow> r = PyNone)"
proof -
  have a: "name \<in> dom (elems m) \<longrightarrow> add_elem m name srt = Inr (PyBool False, m)"
    by (simp add: add_elem_def)
  have b: "name \<notin> dom (elems m) \<longrightarrow>
      (\<forall>r m'. add_elem m name srt = Inr (r, m') \<longrightarrow>
         r = PyBool True \<and> elems m' name = Some (length (names m)))"
    by (auto simp: add_elem_def Let_def split: option.splits if_splits)
  have c: "c \<in> dom (m_constants m) \<longrightarrow> add_constant m c el = Inr (PyBool False, m)"
    by (simp add: add_constant_def)
  have d: "c \<notin> dom (m_constants m) \<longrightarrow>
      (\<forall>r m'. add_constant m c el = Inr (r, m') \<longrightarrow>
         r = PyBool True \<and> m_constants m' c = elems m el)"
    by (auto simp: add_constant_def split: option.splits if_splits)
  have e: "\<forall>r m'. add_relation m rel args = Inr (r, m') \<longrightarrow> r = PyNone"
    by (auto simp: add_relation_def split: option.splits)
  have f: "\<forall>r m'. add_function m func args res = Inr (r, m') \<longrightarrow> r = PyNone"
    by (auto simp: add_function_def split: option.splits)
  from a b c d e f show ?thesis by blast
qed

theorem model_add_results_witness:
  "''a0'' \<in> dom (elems ex_model) \<and>
   add_elem ex_model ''a0'' ''A'' = Inr (PyBool False, ex_model) \<and>
   ''c'' \<in> dom (m_constants ex_model) \<and>
   add_constant ex_model ''c'' ''b0'' = Inr (PyBool False, ex_model) \<and>
   ''a1'' \<notin> dom (elems ex_model) \<and>
   map_sum id fst (add_elem ex_model ''a1'' ''A'') = Inr (PyBool True) \<and>
   ''d'' \<notin> dom (m_constants ex_model) \<and>
   map_sum id fst (add_constant ex_model ''d'' ''b0'') = Inr (PyBool True) \<and>
   map_sum id fst (add_relation ex_model ''r'' [''a0'']) = Inr PyNone \<and>
   map_sum id fst (add_function ex_model ''f'' [''a0''] ''a0'') = Inr PyNone"
proof -
  have h1: "''a0'' \<in> dom (elems ex_model)" by (simp add: ex_model_def)
  have h2: "''c'' \<in> dom (m_constants ex_model)" by (simp add: ex_model_def)
  have h3: "''a1'' \<notin> dom (elems ex_model)" by (simp add: ex_model_def)
  have h4: "''d'' \<notin> dom (m_constants ex_model)" by (simp add: ex_model_def)
  have old: "add_elem ex_model ''a0'' ''A'' = Inr (PyBool False, ex_model) \<and>
      add_constant ex_model ''c'' ''b0'' = Inr (PyBool False, ex_model)"
    using h1 h2
      model_add_results [where name = "''a0''" and m = ex_model and srt = "''A''"
        and c = "''c''" and el = "''b0''"]
    by blast
  have e: "map_sum id fst (add_elem ex_model ''a1'' ''A'') = Inr (PyBool True)"
    by (simp add: add_elem_def ex_model_def ex_sig_def Let_def)
  have c: "map_sum id fst (add_constant ex_model ''d'' ''b0'') = Inr (PyBool True)"
    by (simp add: add_constant_def ex_model_def)
  have r: "map_sum id fst (add_relation ex_model ''r'' [''a0'']) = Inr PyNone"
    by (simp add: add_relation_def ex_model_def)
  have f: "map_sum id fst (add_function ex_model ''f'' [''a0''] ''a0'') = Inr PyNone"
    by (simp add: add_function_def ex_model_def)
  from h1 h2 h3 h4 old e c r f show ?thesis by blast
qed

text \<open>
  The claim as written fails for \<open>add_relation\<close> and \<open>add_function\<close>: on the example
  model both return \<open>None\<close>, for a tuple that is already present as for a new one.
\<close>

theorem model_add_counterexample:
  "map_sum id fst (add_relation ex_model ''r'' [''a0'']) = Inr PyNone \<and>
   map_sum id fst (add_function ex_model ''f'' [''a0''] ''a0'') = Inr PyNone \<and>
   PyNone \<noteq> PyBool True \<and> PyNone \<noteq> PyBool False"
  by (simp add: ex_model_def add_relation_def add_function_def)

section \<open>Properties of the external solver call\<close>

text \<open>
  C5, as the code behaves. Once the text is preprocessed, \<open>solve_with_cvc4\<close> returns
  \<open>unknown\<close> with no model when the subprocess times out, when it exits with a non-zero
  code, and when it exits with code zero and prints \<open>unknown\<close> first. When it exits
  with code zero and the first line is none of \<open>unsat\<close>, \<open>unknown\<close>, \<open>sat\<close>, the code
  reaches \<open>assert False\<close> and raises \<open>AssertionError\<close>.
\<close>

theorem solve_with_cvc4_unknown:
  assumes "preprocess s = Inr smtlib"
  shows
    "(run smtlib = TimeoutExpired \<longrightarrow>
        solve_with_cvc4 preprocess run parse_model s = Inr (unknown, None)) \<and>
     (run smtlib = CompletedProcess rc out \<and> rc \<noteq> 0 \<longrightarrow>
        solve_with_cvc4 preprocess run parse_model s = Inr (unknown, None)) \<and>
     (run smtlib = CompletedProcess 0 (''unknown'' # rest) \<longrightarrow>
        solve_with_cvc4 preprocess run parse_model s = Inr (unknown, None)) \<and>
     (run smtlib = CompletedProcess 0 (l # rest) \<and>
        l \<noteq> ''unsat'' \<and> l \<noteq> ''unknown'' \<and> l \<noteq> ''sat'' \<longrightarrow>
        solve_with_cvc4 preprocess run parse_model s = Inl AssertionError)"
  using assms by (simp add: solve_with_cvc4_def)

theorem solve_with_cvc4_unknown_witness:
  "solve_with_cvc4 (\<lambda>s::unit. Inr s) (\<lambda>t. TimeoutExpired) (\<lambda>ls. Inr ex_model) ()
     = Inr (unknown, None) \<and>
   solve_with_cvc4 (\<lambda>s::unit. Inr s) (\<lambda>t. CompletedProcess 1 []) (\<lambda>ls. Inr ex_model) ()
     = Inr (unknown, None) \<and>
   solve_with_cvc4 (\<lambda>s::unit. Inr s) (\<lambda>t. CompletedProcess 0 [''unknown''])
     (\<lambda>ls. Inr ex_model) () = Inr (unknown, None) \<and>
   solve_with_cvc4 (\<lambda>s::unit. Inr s) (\<lambda>t. CompletedProcess 0 [''(error)''])
     (\<lambda>ls. Inr ex_model) () = Inl AssertionError"
  using
    solve_with_cvc4_unknown [where preprocess = "\<lambda>s::unit. Inr s" and s = "()"
      and smtlib = "()" and run = "\<lambda>t. TimeoutExpired" and parse_model = "\<lambda>ls. Inr ex_model"]
    solve_with_cvc4_unknown [where preprocess = "\<lambda>s::unit. Inr s" and s = "()"
      and smtlib = "()" and run = "\<lambda>t. CompletedProcess 1 []" and rc = 1 and out = "[]"
      and parse_model = "\<lambda>ls. Inr ex_model"]
    solve_with_cvc4_unknown [where preprocess = "\<lambda>s::unit. Inr s" and s = "()"
      and smtlib = "()" and run = "\<lambda>t. CompletedProcess 0 [''unknown'']" and rest = "[]"
      and parse_model = "\<lambda>ls. Inr ex_model"]
    solve_with_cvc4_unknown [where preprocess = "\<lambda>s::unit. Inr s" and s = "()"
      and smtlib = "()" and run = "\<lambda>t. CompletedProcess 0 [''(error)'']" and rest = "[]"
      and l = "''(error)''" and parse_model = "\<lambda>ls. Inr ex_model"]
  by simp

text \<open>
  The claim as written fails for a malformed first line: with exit code zero and the
  first line \<open>(error)\<close> the call raises instead of returning \<open>unknown\<close>.
\<close>

theorem solve_with_cvc4_counterexample:
  "solve_with_cvc4 (\<lambda>s::unit. Inr s) (\<lambda>t. CompletedProcess 0 [''(error)''])
     (\<lambda>ls. Inr ex_model) () = Inl AssertionError \<and>
   solve_with_cvc4 (\<lambda>s::unit. Inr s) (\<lambda>t. CompletedProcess 0 [''(error)''])
     (\<lambda>ls. Inr ex_model) () \<noteq> Inr (unknown, None)"
  by (simp add: solve_with_cvc4_def)

section \<open>Properties of the equivalence queries\<close>

lemma minimize_skip:
  assumes "k < 100000" and "solver_check (Some k) a b = Inr r" and "r \<noteq> sat"
  shows "minimize solver_check solver_model build a b lbl k =
         minimize solver_check solver_model build a b lbl (Suc k)"
  using assms by (subst minimize.simps) (simp add: fm_def)

lemma minimize_hit:
  assumes "k < 100000" and "solver_check (Some k) a b = Inr sat"
    and "build (solver_model (Some k) a b) = Inr M"
  shows "minimize solver_check solver_model build a b lbl k = Inr (Some (M\<lparr>label := lbl\<rparr>))"
  using assms by (subst minimize.simps) (simp add: fm_def extract_model_def)

lemma minimize_first:
  assumes "k0 \<le> k" and "k < 100000"
    and "\<forall>j \<in> {k0..<k}. \<exists>r. solver_check (Some j) a b = Inr r \<and> r \<noteq> sat"
    and "solver_check (Some k) a b = Inr sat"
    and "build (solver_model (Some k) a b) = Inr M"
  shows "minimize solver_check solver_model build a b lbl k0 = Inr (Some (M\<lparr>label := lbl\<rparr>))"
  using assms
proof (induction "k - k0" arbitrary: k0)
  case 0
  then have "k0 = k" by simp
  with 0 show ?case by (simp add: minimize_hit)
next
  case (Suc n)
  then have lt: "k0 < k" by simp
  with Suc.prems(3) obtain r where
    r: "solver_check (Some k0) a b = Inr r" "r \<noteq> sat" by force
  from lt Suc.prems(2) have "k0 < 100000" by simp
  then have
    "minimize solver_check solver_model build a b lbl k0 =
     minimize solver_check solver_model build a b lbl (Suc k0)"
    using r by (intro minimize_skip [where r = r])
  moreover have "minimize solver_check solver_model build a b lbl (Suc k0) =
      Inr (Some (M\<lparr>label := lbl\<rparr>))"
  proof (rule Suc.hyps(1))
    from Suc.hyps(2) show "n = k - Suc k0" by simp
    from lt show "Suc k0 \<le> k" by simp
    from Suc.prems(2) show "k < 100000" .
    from Suc.prems(3) show
      "\<forall>j \<in> {Suc k0..<k}. \<exists>r. solver_check (Some j) a b = Inr r \<and> r \<noteq> sat" by simp
    from Suc.prems(4) show "solver_check (Some k) a b = Inr sat" .
    from Suc.prems(5) show "build (solver_model (Some k) a b) = Inr M" .
  qed
  ultimately show ?case by simp
qed

lemma minimize_from_one:
  assumes "first_bounded_model solver_check a b k"
    and "build (solver_model (Some k) a b) = Inr M"
  shows "minimize solver_check solver_model build a b lbl 1 = Inr (Some (M\<lparr>label := lbl\<rparr>))"
proof -
  from assms(1) have f: "1 \<le> k" "k < 100000"
    "\<forall>j \<in> {1..<k}. \<exists>r. solver_check (Some j) a b = Inr r \<and> r \<noteq> sat"
    "solver_check (Some k) a b = Inr sat"
    unfolding first_bounded_model_def by blast+
  show ?thesis
    by (rule minimize_first [where k = k]) (fact f assms(2))+
qed

lemma z3_first_query:
  assumes "solver_check None a b = Inr sat"
    and "first_bounded_model solver_check a b k"
    and "build (solver_model (Some k) a b) = Inr M"
  shows "find_model_or_equivalence solver_check solver_model build a b =
         Inr (Some (M\<lparr>label := ''-''\<rparr>))"
proof -
  have "minimize solver_check solver_model build a b ''-'' 1 = Inr (Some (M\<lparr>label := ''-''\<rparr>))"
    by (rule minimize_from_one [where k = k]) (fact assms(2,3))+
  with assms(1) show ?thesis
    by (simp add: find_model_or_equivalence_def fm_def)
qed

lemma z3_second_query:
  assumes "solver_check None a b = Inr r1" and "r1 \<noteq> sat"
    and "solver_check None b a = Inr sat"
    and "first_bounded_model solver_check b a k"
    and "build (solver_model (Some k) b a) = Inr M"
  shows "find_model_or_equivalence solver_check solver_model build a b =
         Inr (Some (M\<lparr>label := ''+''\<rparr>))"
proof -
  have "minimize solver_check solver_model build b a ''+'' 1 = Inr (Some (M\<lparr>label := ''+''\<rparr>))"
    by (rule minimize_from_one [where k = k]) (fact assms(4,5))+
  with assms(1,2,3) show ?thesis
    by (simp add: find_model_or_equivalence_def fm_def)
qed

lemma z3_equivalent:
  assumes "solver_check None a b = Inr unsat" and "solver_check None b a = Inr unsat"
  shows "find_model_or_equivalence solver_check solver_model build a b = Inr None"
  using assms by (simp add: find_model_or_equivalence_def fm_def)

lemma cvc4_first_query:
  assumes "cvc4_query assert_query preprocess run parse_model a b = Inr (r1, Some m1)"
  shows "find_model_or_equivalence_cvc4 assert_query preprocess run parse_model a b =
         Inr (Some (m1\<lparr>label := ''-''\<rparr>))"
  using assms
  by (auto simp: find_model_or_equivalence_cvc4_def cvc4_query_def split: sum.splits)

lemma cvc4_second_query:
  assumes "cvc4_query assert_query preprocess run parse_model a b = Inr (r1, None)"
    and "cvc4_query assert_query preprocess run parse_model b a = Inr (r2, Some m2)"
  shows "find_model_or_equivalence_cvc4 assert_query preprocess run parse_model a b =
         Inr (Some (m2\<lparr>label := ''+''\<rparr>))"
  using assms
  by (auto simp: find_model_or_equivalence_cvc4_def cvc4_query_def split: sum.splits)

lemma cvc4_equivalent:
  assumes "cvc4_query assert_query preprocess run parse_model a b = Inr (unsat, None)"
    and "cvc4_query assert_query preprocess run parse_model b a = Inr (unsat, None)"
  shows "find_model_or_equivalence_cvc4 assert_query preprocess run parse_model a b = Inr None"
  using assms
  by (auto simp: find_model_or_equivalence_cvc4_def cvc4_query_def split: sum.splits)

text \<open>
  C1, as the code behaves. Per equivalence query on hypothesis \<open>a\<close> and target \<open>b\<close>,
  both halves first check \<open>a\<close> conjoined with the negation of \<open>b\<close> and, when that is
  satisfiable, return the counterexample labelled \<open>-\<close>; otherwise they check \<open>b\<close>
  conjoined with the negation of \<open>a\<close> and, when that is satisfiable, return the
  counterexample labelled \<open>+\<close>; when both checks are unsatisfiable they return no
  model. In the embedded half the returned model is the one found under the first
  cardinality bound that has a model.
\<close>

theorem equivalence_query_labels:
  "(solver_check None a b = Inr sat \<and> first_bounded_model solver_check a b k \<and>
    build (solver_model (Some k) a b) = Inr M \<longrightarrow>
      find_model_or_equivalence solver_check solver_model build a b =
        Inr (Some (M\<lparr>label := ''-''\<rparr>))) \<and>
   (solver_check None a b = Inr r1 \<and> r1 \<noteq> sat \<and> solver_check None b a = Inr sat \<and>
    first_bounded_model solver_check b a k' \<and>
    build (solver_model (Some k') b a) = Inr M' \<longrightarrow>
      find_model_or_equivalence solver_check solver_model build a b =
        Inr (Some (M'\<lparr>label := ''+''\<rparr>))) \<and>
   (solver_check None a b = Inr unsat \<and> solver_check None b a = Inr unsat \<longrightarrow>
      find_model_or_equivalence solver_check solver_model build a b = Inr None) \<and>
   (cvc4_query assert_query preprocess run parse_model a b = Inr (q1, Some m1) \<longrightarrow>
      find_model_or_equivalence_cvc4 assert_query preprocess run parse_model a b =
        Inr (Some (m1\<lparr>label := ''-''\<rparr>))) \<and>
   (cvc4_query assert_query preprocess run parse_model a b = Inr (q1, None) \<and>
    cvc4_query assert_query preprocess run parse_model b a = Inr (q2, Some m2) \<longrightarrow>
      find_model_or_equivalence_cvc4 assert_query preprocess run parse_model a b =
        Inr (Some (m2\<lparr>label := ''+''\<rparr>))) \<and>
   (cvc4_query assert_query preprocess run parse_model a b = Inr (unsat, None) \<and>
    cvc4_query assert_query preprocess run parse_model b a = Inr (unsat, None) \<longrightarrow>
      find_model_or_equivalence_cvc4 assert_query preprocess run parse_model a b = Inr None)"
  using z3_first_query [where solver_check = solver_check and a = a and b = b and k = k
      and build = build and solver_model = solver_model and M = M]
    z3_second_query [where solver_check = solver_check and a = a and b = b and ?r1.0 = r1
      and k = k' and build = build and solver_model = solver_model and M = M']
    z3_equivalent [where solver_check = solver_check and a = a and b = b
      and solver_model = solver_model and build = build]
    cvc4_first_query [where assert_query = assert_query and preprocess = preprocess
      and run = run and parse_model = parse_model and a = a and b = b and ?r1.0 = q1
      and ?m1.0 = m1]
    cvc4_second_query [where assert_query = assert_query and preprocess = preprocess
      and run = run and parse_model = parse_model and a = a and b = b and ?r1.0 = q1
      and ?r2.0 = q2 and ?m2.0 = m2]
    cvc4_equivalent [where assert_query = assert_query and preprocess = preprocess
      and run = run and parse_model = parse_model and a = a and b = b]
  by blast

lemma ex_first_bounded: "first_bounded_model ex_solver_check (And []) (Or []) 2"
proof -
  have "{1..<2::nat} = {1}" by auto
  then show ?thesis by (simp add: first_bounded_model_def ex_solver_check_def)
qed

lemma ex_cvc4_sat:
  "cvc4_query ex_assert_query ex_preprocess ex_run ex_parse_model (And []) (Or [])
     = Inr (sat, Some ex_model)"
  by (simp add: cvc4_query_def ex_assert_query_def ex_preprocess_def ex_run_def
        ex_parse_model_def solve_with_cvc4_def)

lemma ex_cvc4_unsat:
  "cvc4_query ex_assert_query ex_preprocess ex_run ex_parse_model (Or []) (And [])
     = Inr (unsat, None)"
  by (simp add: cvc4_query_def ex_assert_query_def ex_preprocess_def ex_run_def
        ex_parse_model_def solve_with_cvc4_def)

lemma ex_cvc4_unsat_same:
  "cvc4_query ex_assert_query ex_preprocess ex_run ex_parse_model (And []) (And [])
     = Inr (unsat, None)"
  by (simp add: cvc4_query_def ex_assert_query_def ex_preprocess_def ex_run_def
        ex_parse_model_def solve_with_cvc4_def)

theorem equivalence_query_labels_witness:
  "find_model_or_equivalence ex_solver_check ex_solver_model ex_build (And []) (Or [])
     = Inr (Some (ex_model\<lparr>label := ''-''\<rparr>)) \<and>
   find_model_or_equivalence ex_solver_check ex_solver_model ex_build (Or []) (And [])
     = Inr (Some (ex_model\<lparr>label := ''+''\<rparr>)) \<and>
   find_model_or_equivalence ex_solver_check ex_solver_model ex_build (And []) (And [])
     = Inr None \<and>
   find_model_or_equivalence_cvc4 ex_assert_query ex_preprocess ex_run ex_parse_model
     (And []) (Or []) = Inr (Some (ex_model\<lparr>label := ''-''\<rparr>)) \<and>
   find_model_or_equivalence_cvc4 ex_assert_query ex_preprocess ex_run ex_parse_model
     (Or []) (And []) = Inr (Some (ex_model\<lparr>label := ''+''\<rparr>)) \<and>
   find_model_or_equivalence_cvc4 ex_assert_query ex_preprocess ex_run ex_parse_model
     (And []) (And []) = Inr None"
proof -
  have s1: "ex_solver_check None (And []) (Or []) = Inr sat"
    by (simp add: ex_solver_check_def)
  have s2: "ex_solver_check None (Or []) (And []) = Inr unsat"
    by (simp add: ex_solver_check_def)
  have s3: "ex_solver_check None (And []) (And []) = Inr unsat"
    by (simp add: ex_solver_check_def)
  have b: "ex_build (ex_solver_model (Some 2) (And []) (Or [])) = Inr ex_model"
    by (simp add: ex_build_def)
  have u: "unsat \<noteq> sat" by simp
  note first = equivalence_query_labels
    [where solver_check = ex_solver_check and solver_model = ex_solver_model
       and build = ex_build and a = "And []" and b = "Or []" and k = 2 and M = ex_model
       and assert_query = ex_assert_query and preprocess = ex_preprocess
       and run = ex_run and parse_model = ex_parse_model and ?q1.0 = sat
       and ?m1.0 = ex_model]
  note second = equivalence_query_labels
    [where solver_check = ex_solver_check and solver_model = ex_solver_model
       and build = ex_build and a = "Or []" and b = "And []" and ?r1.0 = unsat
       and k' = 2 and M' = ex_model
       and assert_query = ex_assert_query and preprocess = ex_preprocess
       and run = ex_run and parse_model = ex_parse_model and ?q1.0 = unsat
       and ?q2.0 = sat and ?m2.0 = ex_model]
  note third = equivalence_query_labels
    [where solver_check = ex_solver_check and solver_model = ex_solver_model
       and build = ex_build and a = "And []" and b = "And []"
       and assert_query = ex_assert_query and preprocess = ex_preprocess
       and run = ex_run and parse_model = ex_parse_model]
  from first s1 ex_first_bounded b ex_cvc4_sat
  have c1: "find_model_or_equivalence ex_solver_check ex_solver_model ex_build (And []) (Or [])
       = Inr (Some (ex_model\<lparr>label := ''-''\<rparr>)) \<and>
     find_model_or_equivalence_cvc4 ex_assert_query ex_preprocess ex_run ex_parse_model
       (And []) (Or []) = Inr (Some (ex_model\<lparr>label := ''-''\<rparr>))"
    by blast
  from second s1 s2 u ex_first_bounded b ex_cvc4_sat ex_cvc4_unsat
  have c2: "find_model_or_equivalence ex_solver_check ex_solver_model ex_build (Or []) (And [])
       = Inr (Some (ex_model\<lparr>label := ''+''\<rparr>)) \<and>
     find_model_or_equivalence_cvc4 ex_assert_query ex_preprocess ex_run ex_parse_model
       (Or []) (And []) = Inr (Some (ex_model\<lparr>label := ''+''\<rparr>))"
    by blast
  from third s3 ex_cvc4_unsat_same
  have c3: "find_model_or_equivalence ex_solver_check ex_solver_model ex_build (And []) (And [])
       = Inr None \<and>
     find_model_or_equivalence_cvc4 ex_assert_query ex_preprocess ex_run ex_parse_model
       (And []) (And []) = Inr None"
    by blast
  from c1 c2 c3 show ?thesis by blast
qed

text \<open>
  The claim as written fails on the labels: the hypothesis \<open>And []\<close> (true) conjoined
  with the negation of the target \<open>Or []\<close> (false) is satisfiable, the first check
  succeeds, and both halves return the counterexample labelled \<open>-\<close>, not \<open>+\<close>. The
  hypothesis holds on the returned model and the target does not.
\<close>

theorem equivalence_query_labels_counterexample:
  "cvc4_query ex_assert_query ex_preprocess ex_run ex_parse_model (And []) (Or [])
     = Inr (sat, Some ex_model) \<and>
   map_sum id (map_option label)
     (find_model_or_equivalence_cvc4 ex_assert_query ex_preprocess ex_run ex_parse_model
        (And []) (Or [])) = Inr (Some ''-'') \<and>
   ex_solver_check None (And []) (Or []) = Inr sat \<and>
   map_sum id (map_option label)
     (find_model_or_equivalence ex_solver_check ex_solver_model ex_build (And []) (Or []))
     = Inr (Some ''-'') \<and>
   ''-'' \<noteq> ''+'' \<and>
   check (And []) ex_model Map.empty = Inr True \<and>
   check (Or []) ex_model Map.empty = Inr False"
proof -
  have b: "ex_build (ex_solver_model (Some 2) (And []) (Or [])) = Inr ex_model"
    by (simp add: ex_build_def)
  have s1: "ex_solver_check None (And []) (Or []) = Inr sat"
    by (simp add: ex_solver_check_def)
  have z: "find_model_or_equivalence ex_solver_check ex_solver_model ex_build (And []) (Or [])
      = Inr (Some (ex_model\<lparr>label := ''-''\<rparr>))"
    by (rule z3_first_query [where k = 2]) (fact s1 ex_first_bounded b)+
  have c: "find_model_or_equivalence_cvc4 ex_assert_query ex_preprocess ex_run ex_parse_model
      (And []) (Or []) = Inr (Some (ex_model\<lparr>label := ''-''\<rparr>))"
    by (rule cvc4_first_query) (fact ex_cvc4_sat)
  from z c ex_cvc4_sat s1 show ?thesis by simp
qed

section \<open>Properties of the refinement loop\<close>

lemma learn_step_Continue_success:
  "learn_step E formula st = Continue st' \<Longrightarrow> success (result st') = success (result st)"
  by (auto simp: learn_step_def Let_def split: sum.splits if_splits option.splits prod.splits)

lemma iterations_success:
  "iterations E formula k st = Some st' \<Longrightarrow> success (result st') = success (result st)"
proof (induction k arbitrary: st)
  case 0
  then show ?case by simp
next
  case (Suc k)
  then obtain st1 where s: "learn_step E formula st = Continue st1"
    and r: "iterations E formula k st1 = Some st'"
    by (auto split: step.splits)
  from Suc.IH [OF r] learn_step_Continue_success [OF s] show ?case by simp
qed

lemma learn_loop_iterations:
  "iterations E formula k st = Some st' \<Longrightarrow> learn_loop E formula st = learn_loop E formula st'"
proof (induction k arbitrary: st)
  case 0
  then show ?case by simp
next
  case (Suc k)
  then obtain st1 where s: "learn_step E formula st = Continue st1"
    and r: "iterations E formula k st1 = Some st'"
    by (auto split: step.splits)
  from s have "learn_loop E formula st = learn_loop E formula st1"
    by (subst learn_loop.simps) simp
  with Suc.IH [OF r] show ?case by simp
qed

lemma learn_step_cannot_separate:
  assumes "cannot_separate_at E formula st m"
  shows "learn_step E formula st =
         Return (Inr ((result st)\<lparr>models := models (result st) @ [m],
                                   reason := couldnt_separate\<rparr>))"
proof -
  obtain ident sep1 where a: "add_model E (separator st) m = (ident, sep1)"
    by (cases "add_model E (separator st) m") auto
  from assms a have
    o: "(if \<not> no_cvc4 E
         then oracle_cvc4 E (length (models (result st))) (current (result st)) formula
         else oracle_z3 E (length (models (result st))) (current (result st)) formula)
        = Inr (Some m)"
    and t: "\<not> timed_out E (length (models (result st)))"
    and c: "map_sum id fst
           (separate_call E sep1
              (if take 1 (label m) = ''+'' then p_constraints st @ [ident]
               else p_constraints st)
              (if take 1 (label m) = ''+'' then n_constraints st
               else n_constraints st @ [ident])
              []) = Inr None"
    by (simp_all add: cannot_separate_at_def)
  from c obtain sep2 where
    c': "separate_call E sep1
              (if take 1 (label m) = ''+'' then p_constraints st @ [ident]
               else p_constraints st)
              (if take 1 (label m) = ''+'' then n_constraints st
               else n_constraints st @ [ident])
              [] = Inr (None, sep2)"
    by (cases "separate_call E sep1
              (if take 1 (label m) = ''+'' then p_constraints st @ [ident]
               else p_constraints st)
              (if take 1 (label m) = ''+'' then n_constraints st
               else n_constraints st @ [ident])
              []") auto
  show ?thesis
    unfolding learn_step_def Let_def
    by (simp only: o t a c' sum.case option.case prod.case if_False)
qed

lemma learn_cannot_separate:
  assumes ax: "assert_axioms E = None"
    and it: "iterations E formula k
             \<lparr>result = initial_result, separator = sep0,
              p_constraints = [], n_constraints = []\<rparr> = Some st"
    and cs: "cannot_separate_at E formula st m"
  shows "\<exists>res. learn E sep0 formula = Some (Inr res) \<and> \<not> success res \<and>
           reason res = couldnt_separate \<and> reason res \<noteq> ''timeout'' \<and>
           models res = models (result st) @ [m]"
proof -
  let ?res = "(result st)\<lparr>models := models (result st) @ [m], reason := couldnt_separate\<rparr>"
  from learn_step_cannot_separate [OF cs] have "learn_loop E formula st = Some (Inr ?res)"
    by (subst learn_loop.simps) simp
  with learn_loop_iterations [OF it] ax have "learn E sep0 formula = Some (Inr ?res)"
    by (simp add: learn_def)
  moreover from iterations_success [OF it] have "\<not> success ?res"
    by (simp add: initial_result_def)
  moreover have "reason ?res = couldnt_separate" by simp
  moreover have "couldnt_separate \<noteq> ''timeout''" by (simp add: couldnt_separate_def)
  ultimately show ?thesis by auto
qed

lemma separate_cannot_separate:
  assumes "batch_cannot_separate E sep0 f"
  shows "\<exists>res. separate E sep0 f = Inr res \<and> \<not> success res \<and>
           reason res = couldnt_separate \<and> reason res \<noteq> ''timeout''"
proof -
  obtain mapping sep1 where
    a: "add_models (add_model E) sep0 (\<lambda>l. []) (fol_models f) = (mapping, sep1)"
    by (cases "add_models (add_model E) sep0 (\<lambda>l. []) (fol_models f)") auto
  let ?call = "separate_call E sep1
              (concat (map mapping (constraint_pos f)))
              (concat (map mapping (constraint_neg f)))
              (concat (map (\<lambda>(a, b). List.product (mapping a) (mapping b))
                 (constraint_imp f)))"
  from assms a have "map_sum id fst ?call = Inr None"
    by (simp add: batch_cannot_separate_def)
  then obtain sep2 where c: "?call = Inr (None, sep2)"
    by (cases ?call) auto
  have "separate E sep0 f =
        Inr (initial_result\<lparr>models := fol_models f, reason := couldnt_separate\<rparr>)"
    unfolding separate_def Let_def
    by (simp only: a c sum.case option.case prod.case)
  moreover have "couldnt_separate \<noteq> ''timeout''" by (simp add: couldnt_separate_def)
  ultimately show ?thesis by (simp add: initial_result_def)
qed

text \<open>
  C6, as the code behaves. Whenever the separator's \<open>separate\<close> call returns no
  candidate, the run ends with a \<open>LearningResult\<close> whose success flag is false and whose
  reason is \<open>couldn't separate models under given restrictions\<close>, which differs from
  the reason \<open>timeout\<close>: in \<open>learn\<close>, in whatever iteration this happens (the run then
  returns, with the last counterexample among its models), and in the batch-mode
  \<open>separate\<close>.
\<close>

theorem cannot_separate_result:
  "(assert_axioms E = None \<and>
    iterations E formula k
      \<lparr>result = initial_result, separator = sep0,
       p_constraints = [], n_constraints = []\<rparr> = Some st \<and>
    cannot_separate_at E formula st m \<longrightarrow>
      (\<exists>res. learn E sep0 formula = Some (Inr res) \<and> \<not> success res \<and>
         reason res = couldnt_separate \<and> reason res \<noteq> ''timeout'' \<and>
         models res = models (result st) @ [m])) \<and>
   (batch_cannot_separate E sep0 f \<longrightarrow>
      (\<exists>res. separate E sep0 f = Inr res \<and> \<not> success res \<and>
         reason res = couldnt_separate \<and> reason res \<noteq> ''timeout''))"
  using learn_cannot_separate [where E = E and formula = formula and k = k and ?sep0.0 = sep0
      and st = st and m = m]
    separate_cannot_separate [where E = E and ?sep0.0 = sep0 and f = f]
  by blast

lemma ex_oracle:
  "find_model_or_equivalence_cvc4 ex_assert_query ex_preprocess ex_run ex_parse_model
     (Or []) (And []) = Inr (Some (ex_model\<lparr>label := ''+''\<rparr>))"
  by (simp add: find_model_or_equivalence_cvc4_def ex_assert_query_def ex_preprocess_def
        ex_run_def ex_parse_model_def solve_with_cvc4_def)

lemma ex_label: "take 1 (label (ex_model\<lparr>label := ''+''\<rparr>)) = ''+''"
  by simp

lemma ex_fields:
  "no_cvc4 ex_collaborators = False"
  "oracle_cvc4 ex_collaborators n =
     find_model_or_equivalence_cvc4 ex_assert_query ex_preprocess ex_run ex_parse_model"
  "timed_out ex_collaborators n = False"
  "add_model ex_collaborators sp m = (sp, Suc sp)"
  "separate_call ex_collaborators sp p ng im =
     (if sp = 1 then Inr (Some (Or []), sp) else Inr (None, sp))"
  "assert_axioms ex_collaborators = None"
  by (simp_all add: ex_collaborators_def)

lemma ex_initial:
  "models initial_result = []" "current initial_result = Or []"
  by (simp_all add: initial_result_def)

lemma ex_step:
  "learn_step ex_collaborators (And [])
      \<lparr>result = initial_result, separator = 0, p_constraints = [], n_constraints = []\<rparr>
    = Continue ex_state1"
proof -
  have "learn_step ex_collaborators (And [])
      \<lparr>result = initial_result, separator = 0, p_constraints = [], n_constraints = []\<rparr>
    = Continue
        \<lparr>result = initial_result\<lparr>models := [ex_model\<lparr>label := ''+''\<rparr>], current := Or []\<rparr>,
         separator = Suc 0, p_constraints = [0], n_constraints = []\<rparr>"
    unfolding learn_step_def Let_def
    by (simp add: ex_fields ex_initial ex_oracle)
  also have "initial_result\<lparr>models := [ex_model\<lparr>label := ''+''\<rparr>], current := Or []\<rparr> =
      \<lparr>success = False, current = Or [], models = [ex_model\<lparr>label := ''+''\<rparr>], reason = []\<rparr>"
    by (simp add: initial_result_def)
  finally show ?thesis by (simp add: ex_state1_def)
qed

lemma ex_iterations:
  "iterations ex_collaborators (And []) 1
     \<lparr>result = initial_result, separator = 0, p_constraints = [], n_constraints = []\<rparr>
   = Some ex_state1"
proof -
  have "iterations ex_collaborators (And []) (Suc 0)
     \<lparr>result = initial_result, separator = 0, p_constraints = [], n_constraints = []\<rparr>
   = Some ex_state1"
    by (simp add: ex_step)
  then show ?thesis by simp
qed

lemma ex_state1_fields:
  "models (result ex_state1) = [ex_model\<lparr>label := ''+''\<rparr>]"
  "current (result ex_state1) = Or []"
  "separator ex_state1 = 1" "p_constraints ex_state1 = [0]" "n_constraints ex_state1 = []"
  by (simp_all add: ex_state1_def)

lemma ex_cannot_separate_at:
  "cannot_separate_at ex_collaborators (And []) ex_state1 (ex_model\<lparr>label := ''+''\<rparr>)"
  unfolding cannot_separate_at_def
  by (simp add: ex_fields ex_state1_fields ex_oracle)

lemma ex_batch_cannot_separate: "batch_cannot_separate ex_collaborators 0 ex_file"
  unfolding batch_cannot_separate_def
  by (simp add: ex_fields ex_file_def)

theorem cannot_separate_result_witness:
  "assert_axioms ex_collaborators = None \<and>
   iterations ex_collaborators (And []) 1
     \<lparr>result = initial_result, separator = 0, p_constraints = [], n_constraints = []\<rparr>
     = Some ex_state1 \<and>
   cannot_separate_at ex_collaborators (And []) ex_state1 (ex_model\<lparr>label := ''+''\<rparr>) \<and>
   (\<exists>res. learn ex_collaborators 0 (And []) = Some (Inr res) \<and> \<not> success res \<and>
      reason res = couldnt_separate \<and> reason res \<noteq> ''timeout'' \<and>
      models res = models (result ex_state1) @ [ex_model\<lparr>label := ''+''\<rparr>]) \<and>
   batch_cannot_separate ex_collaborators 0 ex_file \<and>
   (\<exists>res. separate ex_collaborators 0 ex_file = Inr res \<and> \<not> success res \<and>
      reason res = couldnt_separate \<and> reason res \<noteq> ''timeout'')"
proof -
  have ax: "assert_axioms ex_collaborators = None" by (simp add: ex_collaborators_def)
  from ax ex_iterations ex_cannot_separate_at ex_batch_cannot_separate
    cannot_separate_result [where E = ex_collaborators and formula = "And []" and k = 1
      and ?sep0.0 = 0 and st = ex_state1 and m = "ex_model\<lparr>label := ''+''\<rparr>"
      and f = ex_file]
  show ?thesis by blast
qed

text \<open>
  The claim as written fails on the reason: in both modes the reason of the result is
  the longer text, not \<open>couldn't separate\<close>.
\<close>

theorem cannot_separate_counterexample:
  "batch_cannot_separate ex_collaborators 0 ex_file \<and>
   map_sum id reason (separate ex_collaborators 0 ex_file)
     = Inr ''couldn't separate models under given restrictions'' \<and>
   map_sum id reason (separate ex_collaborators 0 ex_file) \<noteq> Inr ''couldn't separate'' \<and>
   cannot_separate_at ex_collaborators (And []) ex_state1 (ex_model\<lparr>label := ''+''\<rparr>) \<and>
   map_option (map_sum id reason) (learn ex_collaborators 0 (And []))
     = Some (Inr ''couldn't separate models under given restrictions'') \<and>
   map_option (map_sum id reason) (learn ex_collaborators 0 (And []))
     \<noteq> Some (Inr ''couldn't separate'')"
proof -
  have ax: "assert_axioms ex_collaborators = None" by (simp add: ex_collaborators_def)
  from learn_cannot_separate [OF ax ex_iterations ex_cannot_separate_at]
  have l: "map_option (map_sum id reason) (learn ex_collaborators 0 (And []))
     = Some (Inr ''couldn't separate models under given restrictions'')"
    by (auto simp: couldnt_separate_def)
  from separate_cannot_separate [OF ex_batch_cannot_separate]
  have b: "map_sum id reason (separate ex_collaborators 0 ex_file)
     = Inr ''couldn't separate models under given restrictions''"
    by (auto simp: couldnt_separate_def)
  have l': "map_option (map_sum id reason) (learn ex_collaborators 0 (And []))
     \<noteq> Some (Inr ''couldn't separate'')"
    unfolding l by simp
  have b': "map_sum id reason (separate ex_collaborators 0 ex_file) \<noteq> Inr ''couldn't separate''"
    unfolding b by simp
  from l l' b b' ex_batch_cannot_separate ex_cannot_separate_at show ?thesis by blast
qed

end
